theory Spec2Isabelle
  imports
    Main
    "HOL-Library.Word"
    "HOL-Library.Mapping"
    "HOL-Library.AList_Mapping"
    "HOL-Library.Char_ord"
    "HOL-Library.List_Lexorder"
begin

section \<open>Shared data: errors, headers, bodies, the codec interface\<close>

text \<open>
  A Go \<^verbatim>\<open>error\<close> is modelled by its message; the nil error is \<open>None\<close> of
  \<open>error option\<close>. A \<^verbatim>\<open>uint64\<close> is a 64-bit word, so \<open>+ 1\<close> wraps as Go's
  \<^verbatim>\<open>++\<close> does.
\<close>

type_synonym error = string
type_synonym uint64 = "64 word"

text \<open>
  The values that travel as a frame body (\<^verbatim>\<open>interface{}\<close> in the source): the
  placeholder \<^verbatim>\<open>invalidRequest = struct{}{}\<close> of server.go, or an encoded payload.
\<close>

datatype body = invalidRequest | Value string

text \<open>\<^verbatim>\<open>codec.Header\<close>.\<close>

record Header =
  ServiceMethod :: string
  Seq :: uint64
  Error :: string

text \<open>
  \<^verbatim>\<open>codec.Codec\<close> is an interface (ReadHeader, ReadBody, Write, Close) over a
  stream of self-describing messages. One run of an implementation is modelled by a
  script: \<open>incoming\<close> lists the messages still to be read, each with what it decodes to
  when it is read as a header and when it is read as a body; \<open>write_results\<close> lists
  what the next calls of Write return (success once the list is used up);
  \<open>written\<close> collects the frames handed to Write; \<open>closes\<close> counts the calls of
  Close, which return \<open>close_result\<close>. A read on the exhausted stream returns
  \<^verbatim>\<open>io.EOF\<close>.
\<close>

record msg =
  as_header :: "error + Header"
  as_body :: "error + body"

record Codec =
  incoming :: "msg list"
  write_results :: "error option list"
  written :: "(Header \<times> body) list"
  closes :: nat
  close_result :: "error option"

definition EOF :: error where
  "EOF = ''EOF''"

definition cc_ReadHeader :: "Codec \<Rightarrow> (error + Header) \<times> Codec" where
  "cc_ReadHeader c =
     (case incoming c of
        [] \<Rightarrow> (Inl EOF, c)
      | m # ms \<Rightarrow> (as_header m, c\<lparr>incoming := ms\<rparr>))"

text \<open>
  \<^verbatim>\<open>ReadBody(slot)\<close>: the slot is \<open>None\<close> for \<^verbatim>\<open>ReadBody(nil)\<close>, which reads
  and discards the message, and \<open>Some v\<close> for a pointer to a slot holding \<open>v\<close>. The
  result is the error, the slot afterwards (unchanged when decoding fails) and the codec.
\<close>

definition cc_ReadBody :: "Codec \<Rightarrow> body option \<Rightarrow> error option \<times> body option \<times> Codec" where
  "cc_ReadBody c slot =
     (case incoming c of
        [] \<Rightarrow> (Some EOF, slot, c)
      | m # ms \<Rightarrow>
          (case as_body m of
             Inl e \<Rightarrow> (Some e, slot, c\<lparr>incoming := ms\<rparr>)
           | Inr v \<Rightarrow> (None, (case slot of None \<Rightarrow> None | Some _ \<Rightarrow> Some v), c\<lparr>incoming := ms\<rparr>)))"

definition cc_Write :: "Codec \<Rightarrow> Header \<Rightarrow> body \<Rightarrow> error option \<times> Codec" where
  "cc_Write c hdr b =
     (case write_results c of
        [] \<Rightarrow> (None, c\<lparr>written := written c @ [(hdr, b)]\<rparr>)
      | r # rs \<Rightarrow> (r, c\<lparr>written := written c @ [(hdr, b)], write_results := rs\<rparr>))"

definition cc_Close :: "Codec \<Rightarrow> error option \<times> Codec" where
  "cc_Close c = (close_result c, c\<lparr>closes := closes c + 1\<rparr>)"

text \<open>
  \<^verbatim>\<open>Option\<close> of server.go; durations are nanoseconds. The constant
  \<^verbatim>\<open>MagicNumber\<close> is \<open>MagicNumber_const\<close> here, the name being taken by the field.
  \<open>DefaultOption_init\<close> is the option that the package variable \<^verbatim>\<open>DefaultOption\<close>
  points to when the program starts.
\<close>

record Option =
  MagicNumber :: int
  CodecType :: string
  ConnectTimeout :: int
  HandleTimeout :: int

definition MagicNumber_const :: int where
  "MagicNumber_const = 0x3bef5c"

definition GobType :: string where
  "GobType = ''application/gob''"

definition JsonType :: string where
  "JsonType = ''application/json''"

definition DefaultOption_init :: Option where
  "DefaultOption_init =
     \<lparr>MagicNumber = MagicNumber_const, CodecType = GobType,
      ConnectTimeout = 10 * 1000000000, HandleTimeout = 0\<rparr>"

section \<open>The client: calls, the pending table, the receiver\<close>

text \<open>
  \<^verbatim>\<open>Call\<close>. \<open>Reply\<close> is \<open>None\<close> for a nil reply and \<open>Some v\<close> for a pointer to
  a slot holding \<open>v\<close>. The channel \<open>Done\<close> is abstracted to the number of times the
  call has been sent on it; its buffer is taken to be large enough for a send not to block.
\<close>

record Call =
  Seq :: uint64
  ServiceMethod :: string
  Args :: body
  Reply :: "body option"
  Error :: "error option"
  Done :: nat

definition call_done :: "Call \<Rightarrow> Call" where
  "call_done call = call\<lparr>Done := Done call + 1\<rparr>"

text \<open>
  \<^verbatim>\<open>Client\<close>. The pending table holds pointers to calls; the model stores the call
  a pointer refers to, so an assignment through the pointer shows as a changed entry.
  The two mutexes make each of the functions below atomic, and are not fields here.
\<close>

record Client =
  cc :: Codec
  opt :: Option
  header :: Header
  seq :: uint64
  pending :: "uint64 \<rightharpoonup> Call"
  closing :: bool
  shutdown :: bool

definition ErrShutdown :: error where
  "ErrShutdown = ''connection is shut down''"

definition Close :: "Client \<Rightarrow> error option \<times> Client" where
  "Close client =
     (if closing client then (Some ErrShutdown, client)
      else (let (r, cc') = cc_Close (cc client)
            in (r, client\<lparr>cc := cc', closing := True\<rparr>)))"

definition IsAvailable :: "Client \<Rightarrow> bool" where
  "IsAvailable client \<longleftrightarrow> \<not> shutdown client \<and> \<not> closing client"

text \<open>
  \<^verbatim>\<open>registerCall\<close> returns the pair \<^verbatim>\<open>(uint64, error)\<close>, and changes the call
  and the client.
\<close>

definition registerCall :: "Client \<Rightarrow> Call \<Rightarrow> (uint64 \<times> error option) \<times> Call \<times> Client" where
  "registerCall client call =
     (if closing client \<or> shutdown client then ((0, Some ErrShutdown), call, client)
      else (let call' = call\<lparr>Call.Seq := seq client\<rparr>
            in ((Call.Seq call', None), call',
                client\<lparr>pending := (pending client)(Call.Seq call' \<mapsto> call'),
                       seq := seq client + 1\<rparr>)))"

definition removeCall :: "Client \<Rightarrow> uint64 \<Rightarrow> Call option \<times> Client" where
  "removeCall client s = (pending client s, client\<lparr>pending := (pending client)(s := None)\<rparr>)"

text \<open>
  \<^verbatim>\<open>terminateCalls\<close>: the loop over the table assigns the error to every call and
  fires its done signal; it has no \<^verbatim>\<open>delete\<close>.
\<close>

definition terminateCalls :: "Client \<Rightarrow> error \<Rightarrow> Client" where
  "terminateCalls client err =
     client\<lparr>shutdown := True,
            pending := (\<lambda>s. map_option (\<lambda>call. call_done (call\<lparr>Call.Error := Some err\<rparr>))
                                 (pending client s))\<rparr>"

text \<open>
  One iteration of the loop of \<^verbatim>\<open>receive\<close>, after the header was read: the error
  that ends or continues the loop, the call fired on its done channel (if any), and
  the client. \<^verbatim>\<open>fmt.Errorf(h.Error)\<close> takes the server's message as a format with no
  operand; the formatting of the package \<^verbatim>\<open>fmt\<close>, which is not part of the
  repository, is the parameter \<open>Errorf\<close>.
\<close>

definition receive_step ::
  "(string \<Rightarrow> string) \<Rightarrow> Client \<Rightarrow> Header \<Rightarrow> error option \<times> Call option \<times> Client" where
  "receive_step Errorf client hdr =
     (let (found, client1) = removeCall client (Header.Seq hdr)
      in case found of
           None \<Rightarrow>
             (let (err, _, cc') = cc_ReadBody (cc client1) None
              in (err, None, client1\<lparr>cc := cc'\<rparr>))
         | Some call \<Rightarrow>
             if Header.Error hdr \<noteq> [] then
               (let call1 = call\<lparr>Call.Error := Some (Errorf (Header.Error hdr))\<rparr>;
                    (err, _, cc') = cc_ReadBody (cc client1) None
                in (err, Some (call_done call1), client1\<lparr>cc := cc'\<rparr>))
             else
               (let (err, slot, cc') = cc_ReadBody (cc client1) (Reply call);
                    call1 = call\<lparr>Reply := slot\<rparr>;
                    call2 = (case err of
                               None \<Rightarrow> call1
                             | Some m \<Rightarrow> call1\<lparr>Call.Error := Some (''reading body '' @ m)\<rparr>)
                in (err, Some (call_done call2), client1\<lparr>cc := cc'\<rparr>)))"

text \<open>
  \<^verbatim>\<open>receive\<close>: the loop runs while no read fails, then \<^verbatim>\<open>terminateCalls\<close>. The
  result is the client and the calls fired by the loop, in order.
\<close>

function receive :: "(string \<Rightarrow> string) \<Rightarrow> Client \<Rightarrow> Client \<times> Call list" where
  "receive Errorf client =
     (case cc_ReadHeader (cc client) of
        (Inl err, cc') \<Rightarrow> (terminateCalls (client\<lparr>cc := cc'\<rparr>) err, [])
      | (Inr hdr, cc') \<Rightarrow>
          (case receive_step Errorf (client\<lparr>cc := cc'\<rparr>) hdr of
             (Some err, fired, client') \<Rightarrow>
               (terminateCalls client' err, (case fired of None \<Rightarrow> [] | Some c \<Rightarrow> [c]))
           | (None, fired, client') \<Rightarrow>
               (let (final, rest) = receive Errorf client'
                in (final, (case fired of None \<Rightarrow> [] | Some c \<Rightarrow> [c]) @ rest))))"
  by pat_completeness auto

lemma cc_ReadHeader_shorter:
  "cc_ReadHeader c = (Inr hdr, c') \<Longrightarrow> length (incoming c') < length (incoming c)"
  by (auto simp: cc_ReadHeader_def split: list.splits)

lemma cc_ReadBody_not_longer:
  "cc_ReadBody c slot = (err, slot', c') \<Longrightarrow> length (incoming c') \<le> length (incoming c)"
  by (auto simp: cc_ReadBody_def split: list.splits sum.splits)

lemma receive_step_not_longer:
  "receive_step Errorf client hdr = (err, fired, client') \<Longrightarrow>
   length (incoming (cc client')) \<le> length (incoming (cc client))"
  by (auto simp: receive_step_def removeCall_def Let_def
           split: option.splits if_splits prod.splits dest: cc_ReadBody_not_longer)

termination receive
  apply (relation "measure (\<lambda>(Errorf, client). length (incoming (cc client)))")
   apply simp
  apply (auto dest!: cc_ReadHeader_shorter [OF sym] receive_step_not_longer [OF sym])
  done

declare receive.simps [simp del]

definition newClientCodec :: "Codec \<Rightarrow> Option \<Rightarrow> Client" where
  "newClientCodec c ob =
     \<lparr>cc = c, opt = ob,
      header = \<lparr>Header.ServiceMethod = [], Header.Seq = 0, Header.Error = []\<rparr>,
      seq = 1, pending = Map.empty, closing = False, shutdown = False\<rparr>"

text \<open>\<^verbatim>\<open>send\<close>: the call as the caller sees it afterwards, and the client.\<close>

definition send :: "Client \<Rightarrow> Call \<Rightarrow> Call \<times> Client" where
  "send client call =
     (let ((s, err), call1, client1) = registerCall client call
      in case err of
           Some e \<Rightarrow> (call_done (call1\<lparr>Call.Error := Some e\<rparr>), client1)
         | None \<Rightarrow>
             (let client2 = client1\<lparr>header :=
                    \<lparr>Header.ServiceMethod = Call.ServiceMethod call1, Header.Seq = s,
                     Header.Error = []\<rparr>\<rparr>;
                  (werr, cc') = cc_Write (cc client2) (header client2) (Args call1);
                  client3 = client2\<lparr>cc := cc'\<rparr>
              in case werr of
                   None \<Rightarrow> (call1, client3)
                 | Some e \<Rightarrow>
                     (let (found, client4) = removeCall client3 s
                      in case found of
                           None \<Rightarrow> (call1, client4)
                         | Some c \<Rightarrow> (call_done (c\<lparr>Call.Error := Some e\<rparr>), client4))))"

text \<open>
  \<^verbatim>\<open>Go\<close>: \<open>done_cap\<close> is \<open>None\<close> for a nil channel (a channel of capacity 10 is
  made) and the capacity otherwise; an unbuffered channel panics, which is \<open>None\<close>.
\<close>

definition Go :: "Client \<Rightarrow> string \<Rightarrow> body \<Rightarrow> body option \<Rightarrow> nat option \<Rightarrow> (Call \<times> Client) option" where
  "Go client serviceMethod args reply done_cap =
     (if done_cap = Some 0 then None
      else Some (send client
                   \<lparr>Call.Seq = 0, Call.ServiceMethod = serviceMethod, Args = args,
                    Reply = reply, Call.Error = None, Done = 0\<rparr>))"

text \<open>
  \<^verbatim>\<open>CallWithTimeout\<close> waits in a \<^verbatim>\<open>select\<close>; which case fires is an input:
  the context is done with a cause, or the call arrives on its done channel.
\<close>

datatype select_case = ctx_Done error | call_Done Call

definition CallWithTimeout ::
  "Client \<Rightarrow> select_case \<Rightarrow> string \<Rightarrow> body \<Rightarrow> body option \<Rightarrow> (error option \<times> Client) option" where
  "CallWithTimeout client sel serviceMethod args reply =
     (case Go client serviceMethod args reply (Some 1) of
        None \<Rightarrow> None
      | Some (call, client1) \<Rightarrow>
          (case sel of
             ctx_Done cause \<Rightarrow>
               (let (_, client2) = removeCall client1 (Call.Seq call)
                in Some (Some (''rpc client: call failed: '' @ cause), client2))
           | call_Done c \<Rightarrow> Some (Call.Error c, client1)))"

text \<open>
  The functions that take \<^verbatim>\<open>client.mu\<close>, as atomic operations, and a run of them:
  \<open>assigned\<close> lists the sequence numbers that \<^verbatim>\<open>registerCall\<close> returned with a nil
  error, in the order of registration. Every other function of the client reaches
  \<open>seq\<close>, \<open>pending\<close>, \<open>closing\<close> and \<open>shutdown\<close> through these only.
\<close>

datatype client_op =
    op_registerCall Call
  | op_removeCall uint64
  | op_Close
  | op_terminateCalls error

fun exec_op :: "client_op \<Rightarrow> Client \<Rightarrow> Client" where
  "exec_op (op_registerCall call) client = snd (snd (registerCall client call))"
| "exec_op (op_removeCall s) client = snd (removeCall client s)"
| "exec_op op_Close client = snd (Close client)"
| "exec_op (op_terminateCalls err) client = terminateCalls client err"

fun exec_ops :: "client_op list \<Rightarrow> Client \<Rightarrow> Client" where
  "exec_ops [] client = client"
| "exec_ops (x # xs) client = exec_ops xs (exec_op x client)"

fun assigned :: "client_op list \<Rightarrow> Client \<Rightarrow> uint64 list" where
  "assigned [] client = []"
| "assigned (op_registerCall call # xs) client =
     (case fst (registerCall client call) of
        (s, None) \<Rightarrow> s # assigned xs (exec_op (op_registerCall call) client)
      | (s, Some e) \<Rightarrow> assigned xs (exec_op (op_registerCall call) client))"
| "assigned (x # xs) client = assigned xs (exec_op x client)"

text \<open>A codec with nothing to read, a call and the fresh client, for the examples.\<close>

definition codec0 :: Codec where
  "codec0 = \<lparr>incoming = [], write_results = [], written = [], closes = 0, close_result = None\<rparr>"

definition call0 :: Call where
  "call0 = \<lparr>Call.Seq = 0, Call.ServiceMethod = ''Foo.Sum'', Args = Value ''1 2'',
            Reply = Some (Value []), Call.Error = None, Done = 0\<rparr>"

definition client0 :: Client where
  "client0 = newClientCodec codec0 DefaultOption_init"

definition call1 :: Call where
  "call1 = call0\<lparr>Call.Seq := 1\<rparr>"

text \<open>The client after \<open>call0\<close> was registered under number 1.\<close>

definition client1 :: Client where
  "client1 = snd (snd (registerCall client0 call0))"

definition bad_body :: msg where
  "bad_body = \<lparr>as_header = Inl ''gob: type mismatch'', as_body = Inl ''unexpected EOF''\<rparr>"

definition good_body :: msg where
  "good_body = \<lparr>as_header = Inl ''gob: type mismatch'', as_body = Inr (Value ''3'')\<rparr>"

definition reply_header :: Header where
  "reply_header = \<lparr>Header.ServiceMethod = ''Foo.Sum'', Header.Seq = 1, Header.Error = []\<rparr>"

definition client1_reading :: "msg list \<Rightarrow> Client" where
  "client1_reading ms = client1\<lparr>cc := codec0\<lparr>incoming := ms\<rparr>\<rparr>"

section \<open>The server: service lookup and the request loop\<close>

text \<open>
  \<^verbatim>\<open>methodType\<close> and \<^verbatim>\<open>service\<close>. The argument and reply types
  (\<^verbatim>\<open>reflect.Type\<close>) are kept by name; the \<^verbatim>\<open>reflect.Method\<close> of a method,
  and the type and receiver of a service, are left out. The field \<^verbatim>\<open>method\<close> of a
  service is \<open>method_map\<close> here; a method absent from it is the nil
  \<^verbatim>\<open>*methodType\<close>.
\<close>

record methodType =
  ArgType :: string
  ReplyType :: string
  numCalls :: uint64

record service =
  name :: string
  method_map :: "string \<rightharpoonup> methodType"

record Server =
  serviceMap :: "string \<rightharpoonup> service"

text \<open>
  \<^verbatim>\<open>strings.LastIndex(s, ".")\<close>, for a separator of one byte: the index of its last
  occurrence, or \<open>-1\<close>.
\<close>

fun LastIndex :: "string \<Rightarrow> char \<Rightarrow> int" where
  "LastIndex [] c = -1"
| "LastIndex (x # xs) c =
     (let i = LastIndex xs c
      in if 0 \<le> i then i + 1 else if x = c then 0 else -1)"

text \<open>
  \<^verbatim>\<open>findService\<close> has the named results \<^verbatim>\<open>(svc, mtype, err)\<close>, nil until
  assigned.
\<close>

definition findService ::
  "Server \<Rightarrow> string \<Rightarrow> service option \<times> methodType option \<times> error option" where
  "findService server serviceMethod =
     (let dot = LastIndex serviceMethod CHR ''.''
      in if dot < 0 then
           (None, None, Some (''rpc server: service/method request ill-formed: '' @ serviceMethod))
         else
           (let serviceName = take (nat dot) serviceMethod;
                methodName = drop (nat (dot + 1)) serviceMethod
            in case serviceMap server serviceName of
                 None \<Rightarrow> (None, None, Some (''rpc server: can't find service '' @ serviceName))
               | Some svc \<Rightarrow>
                   (case method_map svc methodName of
                      None \<Rightarrow>
                        (Some svc, None, Some (''rpc server: can't find method '' @ methodName))
                    | Some mt \<Rightarrow> (Some svc, Some mt, None))))"

text \<open>
  \<^verbatim>\<open>request\<close>; the argument and the reply are \<open>None\<close> until \<^verbatim>\<open>readRequest\<close>
  makes them.
\<close>

record request =
  h :: Header
  argv :: "body option"
  replyv :: "body option"
  mtype :: "methodType option"
  scv :: "service option"

definition readRequestHeader :: "Codec \<Rightarrow> (Header option \<times> error option) \<times> Codec" where
  "readRequestHeader c =
     (case cc_ReadHeader c of
        (Inl err, c') \<Rightarrow> ((None, Some err), c')
      | (Inr hdr, c') \<Rightarrow> ((Some hdr, None), c'))"

text \<open>
  \<^verbatim>\<open>readRequest\<close>: when the lookup fails it returns before the body is read, so the
  body stays in the stream.
\<close>

definition readRequest :: "Server \<Rightarrow> Codec \<Rightarrow> (request option \<times> error option) \<times> Codec" where
  "readRequest server c =
     (case readRequestHeader c of
        ((_, Some err), c') \<Rightarrow> ((None, Some err), c')
      | ((None, None), c') \<Rightarrow> ((None, None), c')
      | ((Some hdr, None), c') \<Rightarrow>
          (let req = \<lparr>h = hdr, argv = None, replyv = None, mtype = None, scv = None\<rparr>;
               (svc, mt, err) = findService server (Header.ServiceMethod hdr);
               req1 = req\<lparr>scv := svc, mtype := mt\<rparr>
           in case err of
                Some e \<Rightarrow> ((Some req1, Some e), c')
              | None \<Rightarrow>
                  (let req2 = req1\<lparr>argv := Some (Value []), replyv := Some (Value [])\<rparr>;
                       (rerr, slot, c'') = cc_ReadBody c' (argv req2);
                       req3 = req2\<lparr>argv := slot\<rparr>
                   in case rerr of
                        Some e \<Rightarrow> ((Some req3, Some e), c'')
                      | None \<Rightarrow> ((Some req3, None), c''))))"

text \<open>\<^verbatim>\<open>sendResponse\<close>: a failed write is logged, nothing else.\<close>

definition sendResponse :: "Codec \<Rightarrow> Header \<Rightarrow> body \<Rightarrow> Codec" where
  "sendResponse c hdr b = snd (cc_Write c hdr b)"

text \<open>
  \<^verbatim>\<open>serveCodec\<close>. What the loop does, in order: an error response it writes itself, or
  a request it hands to a new goroutine (\<^verbatim>\<open>handleRequestWithTimeout\<close>, whose
  response is written concurrently and is not part of this model). After the loop the
  codec is closed. \<^verbatim>\<open>readRequest\<close> never returns a nil request with a nil error; the
  model ends the loop there.
\<close>

datatype action = Respond Header body | Dispatch request

function serveCodec :: "Server \<Rightarrow> Codec \<Rightarrow> Option \<Rightarrow> action list \<times> Codec" where
  "serveCodec server c ob =
     (case readRequest server c of
        ((None, _), c') \<Rightarrow> ([], snd (cc_Close c'))
      | ((Some req, Some err), c') \<Rightarrow>
          (let hdr = (h req)\<lparr>Header.Error := err\<rparr>;
               (acts, final) = serveCodec server (sendResponse c' hdr invalidRequest) ob
           in (Respond hdr invalidRequest # acts, final))
      | ((Some req, None), c') \<Rightarrow>
          (let (acts, final) = serveCodec server c' ob
           in (Dispatch req # acts, final)))"
  by pat_completeness auto

lemma readRequest_shorter:
  "readRequest server c = ((Some req, err), c') \<Longrightarrow> length (incoming c') < length (incoming c)"
  by (auto simp: readRequest_def readRequestHeader_def cc_ReadHeader_def cc_ReadBody_def Let_def
           split: list.splits sum.splits prod.splits option.splits)

lemma incoming_sendResponse: "incoming (sendResponse c hdr b) = incoming c"
  by (simp add: sendResponse_def cc_Write_def split: list.splits)

termination serveCodec
  apply (relation "measure (\<lambda>(server, c, ob). length (incoming c))")
    apply simp
   apply (auto simp: incoming_sendResponse dest!: readRequest_shorter [OF sym])
  done

declare serveCodec.simps [simp del]


definition Sum_method :: methodType where
  "Sum_method = \<lparr>ArgType = ''Args'', ReplyType = ''*int'', numCalls = 0\<rparr>"

definition Foo_service :: service where
  "Foo_service = \<lparr>name = ''Foo'', method_map = [''Sum'' \<mapsto> Sum_method]\<rparr>"

definition server0 :: Server where
  "server0 = \<lparr>serviceMap = [''Foo'' \<mapsto> Foo_service]\<rparr>"

definition header_msg :: "string \<Rightarrow> uint64 \<Rightarrow> msg" where
  "header_msg sm n =
     \<lparr>as_header = Inr \<lparr>Header.ServiceMethod = sm, Header.Seq = n, Header.Error = []\<rparr>,
      as_body = Inl ''gob: type mismatch''\<rparr>"

definition body_msg :: "string \<Rightarrow> msg" where
  "body_msg v = \<lparr>as_header = Inl ''gob: type mismatch'', as_body = Inr (Value v)\<rparr>"

definition serving :: "msg list \<Rightarrow> Codec" where
  "serving ms = codec0\<lparr>incoming := ms\<rparr>"

definition ill_formed_FooSum :: Header where
  "ill_formed_FooSum =
     \<lparr>Header.ServiceMethod = ''FooSum'', Header.Seq = 1,
      Header.Error = ''rpc server: service/method request ill-formed: FooSum''\<rparr>"

section \<open>The multi-server client: Broadcast\<close>

text \<open>
  The variables that the goroutines of \<^verbatim>\<open>Broadcast\<close> share under its mutex:
  \<^verbatim>\<open>e\<close>, \<^verbatim>\<open>replyDone\<close>, the caller's \<^verbatim>\<open>reply\<close> (\<open>None\<close> for nil,
  \<open>Some v\<close> for a pointer to a slot holding \<open>v\<close>), and the number of calls of
  \<^verbatim>\<open>cancel\<close>.
\<close>

record Broadcast_vars =
  bc_e :: "error option"
  bc_replyDone :: bool
  bc_reply :: "body option"
  bc_cancel :: nat

text \<open>
  The critical section of one goroutine, entered with the result of its
  \<^verbatim>\<open>xc.call\<close>: the error and the content of its cloned reply.
\<close>

definition Broadcast_locked :: "Broadcast_vars \<Rightarrow> error option \<times> body \<Rightarrow> Broadcast_vars" where
  "Broadcast_locked st r =
     (let (err, clonedReply) = r;
          st1 = (if err \<noteq> None \<and> bc_e st = None
                 then st\<lparr>bc_e := err, bc_cancel := bc_cancel st + 1\<rparr> else st);
          st2 = (if err = None \<and> \<not> bc_replyDone st1
                 then st1\<lparr>bc_reply := Some clonedReply, bc_replyDone := True\<rparr> else st1)
      in st2)"

text \<open>
  \<^verbatim>\<open>Broadcast\<close>, given what \<^verbatim>\<open>GetAll\<close> returns. The loop starts one goroutine
  for each position of the list of addresses; \<open>xc_call i addr\<close> is what the
  \<^verbatim>\<open>xc.call\<close> of the goroutine of position \<open>i\<close> returns for its address, and
  \<open>order\<close> lists the positions in the order in which the goroutines take the mutex (a
  permutation of the positions; any one is possible). The result is the returned error,
  the caller's reply afterwards and the number of calls of \<^verbatim>\<open>cancel\<close>.
\<close>

definition Broadcast_results ::
  "string list \<Rightarrow> (nat \<Rightarrow> string \<Rightarrow> error option \<times> body) \<Rightarrow> nat list \<Rightarrow>
   (error option \<times> body) list" where
  "Broadcast_results addrs xc_call order = map (\<lambda>i. xc_call i (addrs ! i)) order"

definition Broadcast ::
  "error + string list \<Rightarrow> body option \<Rightarrow> (nat \<Rightarrow> string \<Rightarrow> error option \<times> body) \<Rightarrow> nat list \<Rightarrow>
   error option \<times> body option \<times> nat" where
  "Broadcast getall reply xc_call order =
     (case getall of
        Inl err \<Rightarrow> (Some err, reply, 0)
      | Inr addrs \<Rightarrow>
          (let st = foldl Broadcast_locked
                      \<lparr>bc_e = None, bc_replyDone = (reply = None), bc_reply = reply,
                       bc_cancel = 0\<rparr>
                      (Broadcast_results addrs xc_call order)
           in (bc_e st, bc_reply st, bc_cancel st)))"

text \<open>
  The aggregation in the words of the specification, over the results in the order of
  the mutex: the first error observed, and the reply of the first call that succeeded.
\<close>

definition first_error :: "(error option \<times> body) list \<Rightarrow> error option" where
  "first_error results =
     (case List.find (\<lambda>r. fst r \<noteq> None) results of None \<Rightarrow> None | Some r \<Rightarrow> fst r)"

definition first_success :: "(error option \<times> body) list \<Rightarrow> body option" where
  "first_success results = map_option snd (List.find (\<lambda>r. fst r = None) results)"

text \<open>Three servers, of which the second answers with an error.\<close>

definition three_servers :: "string list" where
  "three_servers = [''tcp@a'', ''tcp@b'', ''tcp@c'']"

definition second_fails :: "nat \<Rightarrow> string \<Rightarrow> error option \<times> body" where
  "second_fails i addr =
     (if addr = ''tcp@b'' then (Some ''context canceled'', Value ''0'')
      else (None, Value (''3 from '' @ addr)))"

definition all_succeed :: "nat \<Rightarrow> string \<Rightarrow> error option \<times> body" where
  "all_succeed i addr = (None, Value (''3 from '' @ addr))"

section \<open>Discovery\<close>

text \<open>
  \<^verbatim>\<open>MultiServersDiscovery\<close>, without its lock and its random source \<^verbatim>\<open>r\<close>, which
  is used once, in the constructor.
\<close>

record MultiServersDiscovery =
  servers :: "string list"
  index :: int




section \<open>The registry\<close>

text \<open>
  \<^verbatim>\<open>ServerItem\<close> and \<^verbatim>\<open>SimpleRegistry\<close>. A \<^verbatim>\<open>time.Time\<close> is a number of
  nanoseconds, and so is the duration \<open>timeout\<close>; the mutex is left out.
\<close>

record ServerItem =
  Addr :: string
  start :: int

record SimpleRegistry =
  timeout :: int
  servers :: "(string, ServerItem) mapping"

definition New :: "int \<Rightarrow> SimpleRegistry" where
  "New t = \<lparr>timeout = t, servers = Mapping.empty\<rparr>"

text \<open>\<^verbatim>\<open>putServer\<close>, with the value of \<^verbatim>\<open>time.Now()\<close>.\<close>

definition putServer :: "SimpleRegistry \<Rightarrow> string \<Rightarrow> int \<Rightarrow> SimpleRegistry" where
  "putServer r addr now =
     (case Mapping.lookup (servers r) addr of
        None \<Rightarrow> r\<lparr>servers := Mapping.update addr \<lparr>Addr = addr, start = now\<rparr> (servers r)\<rparr>
      | Some s \<Rightarrow> r\<lparr>servers := Mapping.update addr (s\<lparr>start := now\<rparr>) (servers r)\<rparr>)"

text \<open>
  The test of the loop of \<^verbatim>\<open>aliveServers\<close>:
  \<^verbatim>\<open>r.timeout == 0 || s.start.Add(r.timeout).After(time.Now())\<close>.
\<close>

definition alive :: "SimpleRegistry \<Rightarrow> ServerItem \<Rightarrow> int \<Rightarrow> bool" where
  "alive r s now \<longleftrightarrow> timeout r = 0 \<or> now < start s + timeout r"

text \<open>
  \<^verbatim>\<open>aliveServers\<close>. The loop visits every key once, in no fixed order, and reads the
  clock at each: \<open>clock addr\<close> is the time read at the entry of \<open>addr\<close>. An entry
  that passes the test is appended to the result, any other is deleted; the result is
  then sorted, which makes it the sorted list of the keys that are left.
\<close>

definition aliveServers :: "SimpleRegistry \<Rightarrow> (string \<Rightarrow> int) \<Rightarrow> string list \<times> SimpleRegistry" where
  "aliveServers r clock =
     (let kept = Mapping.filter (\<lambda>addr s. alive r s (clock addr)) (servers r)
      in (Mapping.ordered_keys kept, r\<lparr>servers := kept\<rparr>))"

text \<open>\<^verbatim>\<open>strings.Join\<close>.\<close>

fun Join :: "string list \<Rightarrow> string \<Rightarrow> string" where
  "Join [] sep = []"
| "Join [x] sep = x"
| "Join (x # y # ys) sep = x @ sep @ Join (y # ys) sep"

text \<open>
  The request as \<^verbatim>\<open>ServeHTTP\<close> reads it: the method and
  \<^verbatim>\<open>req.Header.Get("X-Simplerpc-Servers")\<close>, empty when the header is absent. The
  response: the status given to \<^verbatim>\<open>WriteHeader\<close> (\<open>None\<close> when it is not called)
  and the header \<^verbatim>\<open>X-Simplerpc-Servers\<close> when it is set.
\<close>

record http_Request =
  Method :: string
  req_X_Simplerpc_Servers :: string

record http_Response =
  WriteHeader :: "nat option"
  resp_X_Simplerpc_Servers :: "string option"

definition StatusInternalServerError :: nat where
  "StatusInternalServerError = 500"

definition StatusMethodNotAllowed :: nat where
  "StatusMethodNotAllowed = 405"

text \<open>
  \<^verbatim>\<open>ServeHTTP\<close> of the registry. A GET calls \<^verbatim>\<open>aliveServers\<close> twice, first for a
  line printed to the standard output and then for the header; \<open>clock1\<close> and
  \<open>clock2\<close> are the clocks of the two calls, \<open>now\<close> the time read by a POST.
\<close>

definition ServeHTTP ::
  "SimpleRegistry \<Rightarrow> http_Request \<Rightarrow> (string \<Rightarrow> int) \<Rightarrow> (string \<Rightarrow> int) \<Rightarrow> int \<Rightarrow>
   http_Response \<times> SimpleRegistry" where
  "ServeHTTP r req clock1 clock2 now =
     (if Method req = ''GET'' then
        (let (printed, r1) = aliveServers r clock1;
             (listed, r2) = aliveServers r1 clock2
         in (\<lparr>WriteHeader = None, resp_X_Simplerpc_Servers = Some (Join listed '','')\<rparr>, r2))
      else if Method req = ''POST'' then
        (let addr = req_X_Simplerpc_Servers req
         in if addr = [] then
              (\<lparr>WriteHeader = Some StatusInternalServerError, resp_X_Simplerpc_Servers = None\<rparr>, r)
            else
              (\<lparr>WriteHeader = None, resp_X_Simplerpc_Servers = None\<rparr>, putServer r addr now))
      else
        (\<lparr>WriteHeader = Some StatusMethodNotAllowed, resp_X_Simplerpc_Servers = None\<rparr>, r))"

definition GET :: http_Request where
  "GET = \<lparr>Method = ''GET'', req_X_Simplerpc_Servers = []\<rparr>"

definition POST :: "string \<Rightarrow> http_Request" where
  "POST addr = \<lparr>Method = ''POST'', req_X_Simplerpc_Servers = addr\<rparr>"

text \<open>
  A registry with a time-out of 5 that got a heartbeat of \<open>tcp@b\<close> at time 0, of
  \<open>tcp@a\<close> at time 3 and of \<open>http@c\<close> at time 4.
\<close>

definition registry3 :: SimpleRegistry where
  "registry3 =
     snd (ServeHTTP
       (snd (ServeHTTP
         (snd (ServeHTTP (New 5) (POST ''tcp@b'') (\<lambda>a. 0) (\<lambda>a. 0) 0))
         (POST ''tcp@a'') (\<lambda>a. 0) (\<lambda>a. 0) 3))
       (POST ''http@c'') (\<lambda>a. 0) (\<lambda>a. 0) 4)"

definition PUT :: http_Request where
  "PUT = \<lparr>Method = ''PUT'', req_X_Simplerpc_Servers = ''tcp@a''\<rparr>"

section \<open>Options, the handshake and dialling\<close>

text \<open>
  \<^verbatim>\<open>codec.NewCodecFuncMap\<close>: \<^verbatim>\<open>init\<close> registers the gob codec only. A type that
  is not in the map gives the nil function.
\<close>

datatype NewCodecFunc = NewGobCodec

definition NewCodecFuncMap :: "string \<rightharpoonup> NewCodecFunc" where
  "NewCodecFuncMap = [GobType \<mapsto> NewGobCodec]"

text \<open>
  Pointers to options. The client passes options by pointer and writes through them, so
  the options live in a store: a \<^verbatim>\<open>*Option\<close> is an address, or \<open>None\<close> for nil, and
  the store gives the option held at each address. The package variable
  \<^verbatim>\<open>DefaultOption\<close> holds the address \<open>DefaultOption\<close>; nothing in the program
  assigns to the variable itself, but the option at this address is written like any
  other. \<open>store0\<close> is the store when the program starts, with other addresses at the
  zero value.
\<close>

type_synonym store = "nat \<Rightarrow> Option"

definition DefaultOption :: nat where
  "DefaultOption = 0"

definition zero_Option :: Option where
  "zero_Option = \<lparr>MagicNumber = 0, CodecType = [], ConnectTimeout = 0, HandleTimeout = 0\<rparr>"

definition store0 :: store where
  "store0 = (\<lambda>p. zero_Option)(DefaultOption := DefaultOption_init)"

text \<open>
  \<^verbatim>\<open>parseOptions(opts ...*Option)\<close>: the error or the pointer, and the store
  afterwards. The two assignments go through the first pointer and read the fields that
  \<^verbatim>\<open>DefaultOption\<close> holds at that moment.
\<close>

definition parseOptions :: "store \<Rightarrow> nat option list \<Rightarrow> (error + nat) \<times> store" where
  "parseOptions s opts =
     (case opts of
        [] \<Rightarrow> (Inr DefaultOption, s)
      | None # _ \<Rightarrow> (Inr DefaultOption, s)
      | Some p # _ \<Rightarrow>
          if length opts \<noteq> 1 then (Inl ''number of options is more than 1'', s)
          else
            (let s1 = s(p := (s p)\<lparr>MagicNumber := MagicNumber (s DefaultOption)\<rparr>);
                 s2 = (if CodecType (s1 p) = []
                       then s1(p := (s1 p)\<lparr>CodecType := CodecType (s1 DefaultOption)\<rparr>)
                       else s1)
             in (Inr p, s2)))"

text \<open>
  What one side writes on a connection: raw text, or a value written by the JSON encoder.
  A connection is what was sent on it and the number of times it was closed.
\<close>

datatype wire = Raw string | JSON Option

record Conn =
  sent :: "wire list"
  conn_closes :: nat

definition new_conn :: Conn where
  "new_conn = \<lparr>sent = [], conn_closes = 0\<rparr>"

definition conn_Close :: "Conn \<Rightarrow> Conn" where
  "conn_Close conn = conn\<lparr>conn_closes := conn_closes conn + 1\<rparr>"

text \<open>
  What the peer and the network do during a handshake: the result of encoding the
  option onto the connection, the decoding of the peer's answer, and the codec that the
  codec function makes on the connection. The JSON decoder writes into an option that
  already holds a value: \<open>decode_into hs v\<close> is its error and the value that the
  option holds afterwards when it held \<open>v\<close> before (a decoder leaves the fields that
  the answer does not mention, and may have written some when it fails).
\<close>

record handshake =
  encode_result :: "error option"
  decode_into :: "Option \<Rightarrow> error option \<times> Option"
  made_codec :: Codec

text \<open>
  \<^verbatim>\<open>ServeConn\<close>: the connection afterwards, and what \<^verbatim>\<open>serveCodec\<close> did if it
  was entered. The option is a local variable, decoded into from its zero value. It is
  rejected, with no answer, when it does not decode, when its magic number is not
  \<^verbatim>\<open>MagicNumber\<close> or when its codec type is not in the map. The deferred
  \<^verbatim>\<open>conn.Close()\<close> is the last step in every case.
\<close>

definition ServeConn ::
  "Server \<Rightarrow> Conn \<Rightarrow> handshake \<Rightarrow> Conn \<times> (action list \<times> Codec) option" where
  "ServeConn server conn hs =
     (case decode_into hs zero_Option of
        (Some err, ob) \<Rightarrow> (conn_Close conn, None)
      | (None, ob) \<Rightarrow>
          if MagicNumber ob \<noteq> MagicNumber_const then (conn_Close conn, None)
          else (case NewCodecFuncMap (CodecType ob) of
                  None \<Rightarrow> (conn_Close conn, None)
                | Some f \<Rightarrow>
                    (let conn1 = conn\<lparr>sent := sent conn @ [JSON ob]\<rparr>
                     in case encode_result hs of
                          Some err \<Rightarrow> (conn_Close conn1, None)
                        | None \<Rightarrow>
                            (conn_Close conn1, Some (serveCodec server (made_codec hs) ob)))))"

text \<open>
  \<^verbatim>\<open>NewClient(conn, opt)\<close>: the connection afterwards, the error or the client, and
  the store afterwards. The answer of the peer is decoded into the option that was sent,
  through the same pointer: when the pointer is \<open>DefaultOption\<close>, this writes the
  option that later calls read as the default. The client gets the option as it is
  after the decoding (the program never reads \<^verbatim>\<open>client.opt\<close> again).
\<close>

definition NewClient ::
  "handshake \<Rightarrow> Conn \<Rightarrow> store \<Rightarrow> nat \<Rightarrow> Conn \<times> (error + Client) \<times> store" where
  "NewClient hs conn s p =
     (case NewCodecFuncMap (CodecType (s p)) of
        None \<Rightarrow> (conn, Inl (''invalid codec type '' @ CodecType (s p)), s)
      | Some f \<Rightarrow>
          (let conn1 = conn\<lparr>sent := sent conn @ [JSON (s p)]\<rparr>
           in case encode_result hs of
                Some err \<Rightarrow> (conn_Close conn1, Inl err, s)
              | None \<Rightarrow>
                  (case decode_into hs (s p) of
                     (Some err, v) \<Rightarrow> (conn_Close conn1, Inl err, s(p := v))
                   | (None, v) \<Rightarrow>
                       (conn1, Inr (newClientCodec (made_codec hs) v), s(p := v)))))"

definition connected :: string where
  "connected = ''200 Connected to Gee RPC''"

definition defaultRPCPath :: string where
  "defaultRPCPath = ''/_simplerpc_''"

text \<open>
  \<^verbatim>\<open>NewHTTPClient\<close>; \<open>resp\<close> is what \<^verbatim>\<open>http.ReadResponse\<close> returns, the error or
  the status of the response. The result of \<^verbatim>\<open>io.WriteString\<close> is dropped.
\<close>

definition NewHTTPClient ::
  "error + string \<Rightarrow> handshake \<Rightarrow> Conn \<Rightarrow> store \<Rightarrow> nat \<Rightarrow> Conn \<times> (error + Client) \<times> store" where
  "NewHTTPClient resp hs conn s p =
     (let conn1 = conn\<lparr>sent := sent conn @
                     [Raw (''CONNECT '' @ defaultRPCPath @ '' HTTP/1.0\<newline>\<newline>'')]\<rparr>
      in case resp of
           Inr status \<Rightarrow>
             if status = connected then NewClient hs conn1 s p
             else (conn1, Inl (''unexpected HTTP response:'' @ status), s)
         | Inl err \<Rightarrow> (conn1, Inl err, s))"

text \<open>
  \<^verbatim>\<open>Dial\<close>, from the store \<open>s\<close>; \<open>dialled\<close> is the error of \<^verbatim>\<open>net.Dial\<close>,
  which returns a new connection when there is none. The deferred function closes the
  connection when no client is returned. The result is the connection, if one was made, the
  error or the client, and the store afterwards.
\<close>

definition Dial ::
  "store \<Rightarrow> error option \<Rightarrow> handshake \<Rightarrow> nat option list \<Rightarrow>
   Conn option \<times> (error + Client) \<times> store" where
  "Dial s dialled hs opts =
     (case parseOptions s opts of
        (Inl err, s1) \<Rightarrow> (None, Inl err, s1)
      | (Inr p, s1) \<Rightarrow>
          (case dialled of
             Some err \<Rightarrow> (None, Inl err, s1)
           | None \<Rightarrow>
               (case NewClient hs new_conn s1 p of
                  (conn1, Inl err, s2) \<Rightarrow> (Some (conn_Close conn1), Inl err, s2)
                | (conn1, Inr client, s2) \<Rightarrow> (Some conn1, Inr client, s2))))"

text \<open>
  \<^verbatim>\<open>dialTimeout\<close>. The function \<open>f\<close> runs in a goroutine of its own; \<open>timed_out\<close>
  says that the timer fires before its result arrives, and \<open>show_duration\<close> prints a
  duration as \<^verbatim>\<open>%s\<close> does. After the goroutine is started, \<^verbatim>\<open>opt.ConnectTimeout\<close>
  is read twice more, for the test against zero and for the text of the time-out error,
  with no synchronisation with the decoding that \<open>f\<close> does into the same option:
  \<open>late_test\<close> and \<open>late_text\<close> say, for each of these reads, that it sees the option
  as \<open>f\<close> leaves it rather than as \<open>f\<close> found it. The connection and the store in
  the result show everything that \<open>f\<close> writes, also what it writes after a time-out.
\<close>

definition dialTimeout ::
  "(Conn \<Rightarrow> store \<Rightarrow> nat \<Rightarrow> Conn \<times> (error + Client) \<times> store) \<Rightarrow> store \<Rightarrow> error option \<Rightarrow>
   bool \<Rightarrow> bool \<Rightarrow> bool \<Rightarrow> (int \<Rightarrow> string) \<Rightarrow> nat option list \<Rightarrow>
   Conn option \<times> (error + Client) \<times> store" where
  "dialTimeout f s dialled late_test late_text timed_out show_duration opts =
     (case parseOptions s opts of
        (Inl err, s1) \<Rightarrow> (None, Inl err, s1)
      | (Inr p, s1) \<Rightarrow>
          (case dialled of
             Some err \<Rightarrow> (None, Inl err, s1)
           | None \<Rightarrow>
               (case f new_conn s1 p of
                  (conn1, result, s2) \<Rightarrow>
                    (let returned =
                           (if ConnectTimeout ((if late_test then s2 else s1) p) = 0 then result
                            else if timed_out then
                              Inl (''rpc client: connect timeout: expect within '' @
                                   show_duration
                                     (ConnectTimeout ((if late_text then s2 else s1) p)) @ '' '')
                            else result)
                     in case returned of
                          Inl err \<Rightarrow> (Some (conn_Close conn1), Inl err, s2)
                        | Inr client \<Rightarrow> (Some conn1, Inr client, s2)))))"

definition DialWithTimeout ::
  "store \<Rightarrow> error option \<Rightarrow> handshake \<Rightarrow> bool \<Rightarrow> bool \<Rightarrow> bool \<Rightarrow> (int \<Rightarrow> string) \<Rightarrow>
   nat option list \<Rightarrow> Conn option \<times> (error + Client) \<times> store" where
  "DialWithTimeout s dialled hs late_test late_text timed_out show_duration opts =
     dialTimeout (NewClient hs) s dialled late_test late_text timed_out show_duration opts"

definition DialHTTP ::
  "store \<Rightarrow> error option \<Rightarrow> error + string \<Rightarrow> handshake \<Rightarrow> bool \<Rightarrow> bool \<Rightarrow> bool \<Rightarrow>
   (int \<Rightarrow> string) \<Rightarrow> nat option list \<Rightarrow> Conn option \<times> (error + Client) \<times> store" where
  "DialHTTP s dialled resp hs late_test late_text timed_out show_duration opts =
     dialTimeout (NewHTTPClient resp hs) s dialled late_test late_text timed_out show_duration
       opts"

text \<open>
  The options that a client wrote on a connection, and the test that \<^verbatim>\<open>ServeConn\<close>
  makes of an option it has decoded.
\<close>

definition options_sent :: "Conn option \<Rightarrow> Option list" where
  "options_sent c =
     (case c of
        None \<Rightarrow> []
      | Some conn \<Rightarrow> concat (map (\<lambda>w. case w of JSON ob \<Rightarrow> [ob] | Raw _ \<Rightarrow> []) (sent conn)))"

definition accepted :: "Option \<Rightarrow> bool" where
  "accepted ob \<longleftrightarrow>
     MagicNumber ob = MagicNumber_const \<and> NewCodecFuncMap (CodecType ob) \<noteq> None"

text \<open>
  Handshakes in which nothing fails: \<open>echoing\<close> is the one of a client whose peer
  answers with the option it received, as \<^verbatim>\<open>ServeConn\<close> does, so that the decoding
  leaves the option as it was; in \<open>carrying ob\<close> the message of the other side sets
  every field, to those of \<open>ob\<close>.
\<close>

definition echoing :: handshake where
  "echoing = \<lparr>encode_result = None, decode_into = (\<lambda>v. (None, v)), made_codec = codec0\<rparr>"

definition carrying :: "Option \<Rightarrow> handshake" where
  "carrying ob = \<lparr>encode_result = None, decode_into = (\<lambda>v. (None, ob)), made_codec = codec0\<rparr>"

text \<open>
  An option as a caller may pass it, with no magic number and no codec type, what
  \<^verbatim>\<open>parseOptions\<close> makes of it at the start of the program, and a store that holds
  it at the address \<open>caller\<close>.
\<close>

definition caller :: nat where
  "caller = 1"

definition option0 :: Option where
  "option0 = \<lparr>MagicNumber = 0, CodecType = [], ConnectTimeout = 0, HandleTimeout = 5\<rparr>"

definition parsed0 :: Option where
  "parsed0 =
     \<lparr>MagicNumber = 0x3bef5c, CodecType = ''application/gob'', ConnectTimeout = 0,
      HandleTimeout = 5\<rparr>"

definition store1 :: store where
  "store1 = store0(caller := option0)"

text \<open>
  An option that a peer of another protocol answers with, its magic number not being
  \<^verbatim>\<open>MagicNumber\<close>, and the store after the program has dialled such a peer with the
  default option and then holds the caller's option.
\<close>

definition foreign :: Option where
  "foreign =
     \<lparr>MagicNumber = 1, CodecType = ''application/gob'', ConnectTimeout = 0, HandleTimeout = 0\<rparr>"

definition overwritten :: store where
  "overwritten = (snd (snd (Dial store0 None (carrying foreign) [])))(caller := option0)"

section \<open>Sequence numbers (C1)\<close>

lemma registerCall_available:
  "\<not> closing c \<Longrightarrow> \<not> shutdown c \<Longrightarrow>
   registerCall c call =
     ((seq c, None), call\<lparr>Call.Seq := seq c\<rparr>,
      c\<lparr>pending := (pending c)(seq c \<mapsto> call\<lparr>Call.Seq := seq c\<rparr>), seq := seq c + 1\<rparr>)"
  by (simp add: registerCall_def Let_def)

lemma registerCall_unavailable:
  "closing c \<or> shutdown c \<Longrightarrow> registerCall c call = ((0, Some ErrShutdown), call, c)"
  by (simp add: registerCall_def)

lemma seq_exec_op_other:
  "seq (exec_op (op_removeCall s) c) = seq c"
  "seq (exec_op op_Close c) = seq c"
  "seq (exec_op (op_terminateCalls e) c) = seq c"
  by (simp_all add: removeCall_def Close_def terminateCalls_def cc_Close_def split: prod.splits)

lemma assigned_bounds:
  "unat (seq c) + length (assigned ops c) \<le> 2 ^ 64 \<Longrightarrow>
   sorted_wrt (<) (assigned ops c) \<and> (\<forall>s \<in> set (assigned ops c). seq c \<le> s)"
proof (induction ops arbitrary: c)
  case Nil
  then show ?case by simp
next
  case (Cons x xs)
  show ?case
  proof (cases x)
    case (op_registerCall call)
    show ?thesis
    proof (cases "closing c \<or> shutdown c")
      case True
      then have "assigned (x # xs) c = assigned xs c"
        by (simp add: op_registerCall registerCall_unavailable)
      with Cons show ?thesis by simp
    next
      case False
      let ?c' = "exec_op (op_registerCall call) c"
      from False have s': "seq ?c' = seq c + 1"
        by (simp add: registerCall_available)
      from False have eq: "assigned (x # xs) c = seq c # assigned xs ?c'"
        by (simp add: op_registerCall registerCall_available)
      show ?thesis
      proof (cases "assigned xs ?c'")
        case Nil
        with eq show ?thesis by simp
      next
        case (Cons y ys)
        with eq Cons.prems have "unat (seq c) + 1 < 2 ^ 64" by simp
        then have u: "unat (seq c + 1) = unat (seq c) + 1"
          by (simp add: unat_word_ariths)
        with eq Cons.prems s' have "unat (seq ?c') + length (assigned xs ?c') \<le> 2 ^ 64"
          by simp
        from Cons.IH [OF this] s'
        have ih: "sorted_wrt (<) (assigned xs ?c')" "\<forall>s \<in> set (assigned xs ?c'). seq c + 1 \<le> s"
          by simp_all
        from u have "seq c < seq c + 1"
          by (simp add: word_less_nat_alt)
        with ih eq show ?thesis by auto
      qed
    qed
  next
    case (op_removeCall s)
    then have "assigned (x # xs) c = assigned xs (exec_op x c)" "seq (exec_op x c) = seq c"
      by (simp_all add: seq_exec_op_other del: exec_op.simps)
    with Cons.IH [of "exec_op x c"] Cons.prems show ?thesis by simp
  next
    case op_Close
    then have "assigned (x # xs) c = assigned xs (exec_op x c)" "seq (exec_op x c) = seq c"
      by (simp_all add: seq_exec_op_other del: exec_op.simps)
    with Cons.IH [of "exec_op x c"] Cons.prems show ?thesis by simp
  next
    case (op_terminateCalls e)
    then have "assigned (x # xs) c = assigned xs (exec_op x c)" "seq (exec_op x c) = seq c"
      by (simp_all add: seq_exec_op_other del: exec_op.simps)
    with Cons.IH [of "exec_op x c"] Cons.prems show ?thesis by simp
  qed
qed

lemma strict_sorted_distinct_word:
  "sorted_wrt (<) (xs :: uint64 list) \<Longrightarrow> distinct xs"
  by (induction xs) auto

text \<open>
  C1 (as amended). On an available client \<^verbatim>\<open>registerCall\<close> gives the call the current
  value of \<open>seq\<close>, stores it in the table under that number and increments
  \<open>seq\<close>. In any run of the atomic operations of one client in which the 64-bit
  counter does not wrap around (the counter at the start plus the number of
  registrations is at most \<open>2 ^ 64\<close>), the sequence numbers handed out are strictly
  increasing in the order of registration, hence pairwise distinct.
\<close>

theorem registerCall_seq_increasing:
  "(\<not> closing c \<and> \<not> shutdown c \<longrightarrow>
      fst (registerCall c call) = (seq c, None) \<and>
      Call.Seq (fst (snd (registerCall c call))) = seq c \<and>
      pending (snd (snd (registerCall c call))) (seq c) = Some (call\<lparr>Call.Seq := seq c\<rparr>) \<and>
      seq (snd (snd (registerCall c call))) = seq c + 1) \<and>
   (unat (seq c) + length (assigned ops c) \<le> 2 ^ 64 \<longrightarrow>
      sorted_wrt (<) (assigned ops c) \<and> distinct (assigned ops c))"
  using assigned_bounds [of c ops] strict_sorted_distinct_word [of "assigned ops c"]
  by (auto simp: registerCall_available)


text \<open>
  The theorem at the fresh client: three registrations with a removal in between get the
  numbers 1, 2, 3.
\<close>

theorem registerCall_seq_increasing_witness:
  "\<not> closing client0 \<and> \<not> shutdown client0 \<and>
   fst (registerCall client0 call0) = (1, None) \<and>
   seq (snd (snd (registerCall client0 call0))) = 2 \<and>
   assigned [op_registerCall call0, op_registerCall call0, op_removeCall 1, op_registerCall call0]
     client0 = [1, 2, 3] \<and>
   sorted_wrt (<)
     (assigned [op_registerCall call0, op_registerCall call0, op_removeCall 1, op_registerCall call0]
        client0)"
proof -
  let ?ops = "[op_registerCall call0, op_registerCall call0, op_removeCall 1, op_registerCall call0]"
  have av: "\<not> closing client0 \<and> \<not> shutdown client0" "seq client0 = 1"
    by (simp_all add: client0_def newClientCodec_def)
  have as: "assigned ?ops client0 = [1, 2, 3]"
    by (simp add: client0_def newClientCodec_def registerCall_def removeCall_def Let_def)
  then have "unat (seq client0) + length (assigned ?ops client0) \<le> 2 ^ 64"
    by (simp add: av)
  with av as registerCall_seq_increasing [of client0 call0 ?ops] show ?thesis
    by simp
qed

text \<open>
  C1 as stated fails where the counter wraps: at \<open>seq = 2 ^ 64 - 1\<close> the first call
  gets \<open>2 ^ 64 - 1\<close> and the call registered after it gets \<open>0\<close>.
\<close>

theorem registerCall_seq_wraps:
  "assigned [op_registerCall call0, op_registerCall call0]
     (client0\<lparr>seq := 18446744073709551615\<rparr>) = [18446744073709551615, 0] \<and>
   \<not> sorted_wrt (<)
     (assigned [op_registerCall call0, op_registerCall call0]
        (client0\<lparr>seq := 18446744073709551615\<rparr>))"
  by (simp add: client0_def newClientCodec_def registerCall_def Let_def)

text \<open>
  That state is reached from the client \<^verbatim>\<open>newClientCodec\<close> builds, by
  \<open>2 ^ 64 - 2\<close> registrations.
\<close>

lemma available_registerCall:
  "\<not> closing c \<Longrightarrow> \<not> shutdown c \<Longrightarrow>
   \<not> closing (exec_op (op_registerCall call) c) \<and> \<not> shutdown (exec_op (op_registerCall call) c)"
  by (simp add: registerCall_available)

lemma seq_after_registrations:
  "\<not> closing c \<Longrightarrow> \<not> shutdown c \<Longrightarrow>
   seq (exec_ops (replicate n (op_registerCall call)) c) = seq c + of_nat n \<and>
   \<not> closing (exec_ops (replicate n (op_registerCall call)) c) \<and>
   \<not> shutdown (exec_ops (replicate n (op_registerCall call)) c)"
proof (induction n arbitrary: c)
  case 0
  then show ?case by simp
next
  case (Suc n)
  let ?c' = "exec_op (op_registerCall call) c"
  from Suc.prems have "\<not> closing ?c'" "\<not> shutdown ?c'" "seq ?c' = seq c + 1"
    by (simp_all add: registerCall_available)
  with Suc.IH [of ?c'] show ?case
    by (simp del: exec_op.simps add: add.assoc)
qed

lemma wrap_state_reachable:
  "seq (exec_ops (replicate 18446744073709551614 (op_registerCall call)) (newClientCodec c ob)) =
     18446744073709551615"
proof -
  have "\<not> closing (newClientCodec c ob)" "\<not> shutdown (newClientCodec c ob)"
    "seq (newClientCodec c ob) = 1"
    by (simp_all add: newClientCodec_def)
  from seq_after_registrations [OF this(1,2), of 18446744073709551614 call] this(3)
  show ?thesis by simp
qed

text \<open>
  On a client that stays available, the number of a registration is handed out again
  \<open>2 ^ 64\<close> registrations later.
\<close>

lemma assigned_registrations:
  "\<not> closing c \<Longrightarrow> \<not> shutdown c \<Longrightarrow>
   assigned (replicate n (op_registerCall call)) c = map (\<lambda>i. seq c + of_nat i) [0..<n]"
proof (induction n arbitrary: c)
  case 0
  then show ?case by simp
next
  case (Suc n)
  let ?c' = "exec_op (op_registerCall call) c"
  from Suc.prems have c': "\<not> closing ?c'" "\<not> shutdown ?c'" "seq ?c' = seq c + 1"
    by (simp_all add: registerCall_available)
  have "assigned (replicate (Suc n) (op_registerCall call)) c =
        seq c # assigned (replicate n (op_registerCall call)) ?c'"
    using Suc.prems by (simp add: registerCall_available)
  also have "\<dots> = seq c # map (\<lambda>i. seq c + 1 + of_nat i) [0..<n]"
    using Suc.IH [OF c'(1,2)] c'(3) by simp
  also have "\<dots> = map (\<lambda>i. seq c + of_nat i) [0..<Suc n]"
    by (simp add: upt_rec [of 0 "Suc n"] map_Suc_upt [symmetric] add.assoc del: upt_Suc)
  finally show ?case .
qed

lemma seq_reused_after_wrap:
  assumes "\<not> closing c" "\<not> shutdown c"
  shows "assigned (replicate (2 ^ 64 + 1) (op_registerCall call)) c ! (2 ^ 64) =
         assigned (replicate (2 ^ 64 + 1) (op_registerCall call)) c ! 0"
proof -
  have "(of_nat (2 ^ 64) :: uint64) = 0"
    by simp
  then show ?thesis
    by (simp add: assigned_registrations [OF assms] del: upt_Suc)
qed

section \<open>The pending table (C2)\<close>

lemma pending_receive_step:
  "pending (snd (snd (receive_step Errorf c hdr))) = (pending c)(Header.Seq hdr := None)"
  by (simp add: receive_step_def removeCall_def Let_def split: option.splits prod.splits)

text \<open>
  C2 (as amended). An entry leaves the pending table when its response arrives
  (\<^verbatim>\<open>receive\<close> takes it out by \<^verbatim>\<open>removeCall\<close>) and when the caller's context is
  done (\<^verbatim>\<open>CallWithTimeout\<close> takes it out). \<^verbatim>\<open>terminateCalls\<close> removes nothing:
  it sets \<open>shutdown\<close>, and gives every pending call the error and fires its done
  signal, the table keeping the same keys.
\<close>

theorem pending_removed_or_terminated:
  "pending (snd (removeCall c s)) s = None \<and>
   pending (snd (snd (receive_step Errorf c hdr))) (Header.Seq hdr) = None \<and>
   (\<exists>call c1. Go c m a r (Some 1) = Some (call, c1) \<and>
      CallWithTimeout c (ctx_Done cause) m a r =
        Some (Some (''rpc client: call failed: '' @ cause),
              c1\<lparr>pending := (pending c1)(Call.Seq call := None)\<rparr>)) \<and>
   shutdown (terminateCalls c err) \<and>
   dom (pending (terminateCalls c err)) = dom (pending c) \<and>
   pending (terminateCalls c err) s =
     map_option (\<lambda>call. call\<lparr>Call.Error := Some err, Done := Done call + 1\<rparr>) (pending c s)"
proof -
  obtain call c1 where g: "send c \<lparr>Call.Seq = 0, Call.ServiceMethod = m, Args = a, Reply = r,
                   Call.Error = None, Done = 0\<rparr> = (call, c1)"
    by (cases "send c \<lparr>Call.Seq = 0, Call.ServiceMethod = m, Args = a, Reply = r,
                   Call.Error = None, Done = 0\<rparr>")
  have "CallWithTimeout c (ctx_Done cause) m a r =
        Some (Some (''rpc client: call failed: '' @ cause),
              c1\<lparr>pending := (pending c1)(Call.Seq call := None)\<rparr>)"
    by (simp add: CallWithTimeout_def Go_def g removeCall_def)
  moreover have "dom (pending (terminateCalls c err)) = dom (pending c)"
    by (auto simp: terminateCalls_def dom_def)
  ultimately show ?thesis
    by (simp add: pending_receive_step Go_def g)
       (simp add: removeCall_def terminateCalls_def call_done_def)
qed

text \<open>
  C2 as stated fails: after \<^verbatim>\<open>terminateCalls\<close> the call registered under 1 is
  still in the table (with the error, and fired), so the table is not empty.
\<close>

theorem terminateCalls_keeps_entries:
  "pending client1 1 = Some call1 \<and>
   pending (terminateCalls client1 EOF) 1 = Some (call1\<lparr>Call.Error := Some EOF, Done := 1\<rparr>) \<and>
   pending (terminateCalls client1 EOF) \<noteq> Map.empty"
proof -
  have a: "pending client1 1 = Some call1"
    by (simp add: client1_def call1_def client0_def newClientCodec_def registerCall_def Let_def)
  then have b: "pending (terminateCalls client1 EOF) 1 = Some (call1\<lparr>Call.Error := Some EOF, Done := 1\<rparr>)"
    by (simp add: terminateCalls_def call_done_def call1_def call0_def)
  then have "pending (terminateCalls client1 EOF) 1 \<noteq> Map.empty 1"
    by simp
  then have "pending (terminateCalls client1 EOF) \<noteq> Map.empty"
    by metis
  with a b show ?thesis by simp
qed

section \<open>The receiver's decode failure (C3)\<close>

text \<open>
  C3 (as amended). For a header with empty \<open>Error\<close> that matches a pending call: when
  reading the body into the reply slot fails with message \<open>m\<close>, the call's error
  becomes \<^verbatim>\<open>"reading body "\<close> followed by \<open>m\<close> (no colon); when it succeeds the
  error is left as it was; the done signal is fired in both cases, and the entry is gone
  from the table.
\<close>

theorem receive_reading_body:
  assumes "pending c (Header.Seq hdr) = Some call" and "Header.Error hdr = []"
  shows "(cc_ReadBody (cc c) (Reply call) = (Some m, slot, cc') \<longrightarrow>
            receive_step Errorf c hdr =
              (Some m,
               Some (call\<lparr>Reply := slot, Call.Error := Some (''reading body '' @ m),
                          Done := Done call + 1\<rparr>),
               c\<lparr>pending := (pending c)(Header.Seq hdr := None), cc := cc'\<rparr>)) \<and>
         (cc_ReadBody (cc c) (Reply call) = (None, slot, cc') \<longrightarrow>
            receive_step Errorf c hdr =
              (None, Some (call\<lparr>Reply := slot, Done := Done call + 1\<rparr>),
               c\<lparr>pending := (pending c)(Header.Seq hdr := None), cc := cc'\<rparr>))"
  using assms by (simp add: receive_step_def removeCall_def call_done_def Let_def)

text \<open>
  The theorem at the client with call 1 pending, once with a body that does not decode
  and once with one that does.
\<close>

theorem receive_reading_body_witness:
  "pending (client1_reading [bad_body]) (Header.Seq reply_header) = Some call1 \<and>
   Header.Error reply_header = [] \<and>
   cc_ReadBody (cc (client1_reading [bad_body])) (Reply call1) =
     (Some ''unexpected EOF'', Some (Value []), codec0) \<and>
   fst (snd (receive_step id (client1_reading [bad_body]) reply_header)) =
     Some (call1\<lparr>Call.Error := Some ''reading body unexpected EOF'', Done := 1\<rparr>) \<and>
   cc_ReadBody (cc (client1_reading [good_body])) (Reply call1) =
     (None, Some (Value ''3''), codec0) \<and>
   fst (snd (receive_step id (client1_reading [good_body]) reply_header)) =
     Some (call1\<lparr>Reply := Some (Value ''3''), Done := 1\<rparr>)"
proof -
  have p: "pending (client1_reading ms) (Header.Seq reply_header) = Some call1" for ms
    by (simp add: client1_reading_def reply_header_def client1_def call1_def client0_def
        newClientCodec_def registerCall_def Let_def)
  have e: "Header.Error reply_header = []"
    by (simp add: reply_header_def)
  have b: "cc_ReadBody (cc (client1_reading [bad_body])) (Reply call1) =
     (Some ''unexpected EOF'', Some (Value []), codec0)"
    by (simp add: client1_reading_def cc_ReadBody_def bad_body_def call1_def call0_def codec0_def)
  have g: "cc_ReadBody (cc (client1_reading [good_body])) (Reply call1) =
     (None, Some (Value ''3''), codec0)"
    by (simp add: client1_reading_def cc_ReadBody_def good_body_def call1_def call0_def codec0_def)
  from receive_reading_body [OF p e, of "[bad_body]" "''unexpected EOF''" "Some (Value [])" codec0] b
       receive_reading_body [OF p e, of "[good_body]" "[]" "Some (Value ''3'')" codec0] g
  show ?thesis
    using p e by (simp add: call1_def call0_def)
qed

text \<open>
  C3 as stated fails on the text of the error: the code has no colon after
  \<^verbatim>\<open>reading body\<close>.
\<close>

theorem receive_reading_body_no_colon:
  "map_option Call.Error (fst (snd (receive_step id (client1_reading [bad_body]) reply_header))) =
     Some (Some ''reading body unexpected EOF'') \<and>
   map_option Call.Error (fst (snd (receive_step id (client1_reading [bad_body]) reply_header))) \<noteq>
     Some (Some (''reading body: '' @ ''unexpected EOF''))"
  by (simp add: receive_step_def removeCall_def client1_reading_def reply_header_def client1_def
      client0_def newClientCodec_def registerCall_def Let_def cc_ReadBody_def bad_body_def
      call0_def codec0_def call_done_def)

section \<open>Close and the shutdown sentinel (C4)\<close>

lemma closing_exec_op: "closing c \<Longrightarrow> closing (exec_op x c)"
  by (cases x)
     (simp_all add: registerCall_def removeCall_def Close_def terminateCalls_def Let_def
        split: prod.splits)

lemma shutdown_exec_op: "shutdown c \<Longrightarrow> shutdown (exec_op x c)"
  by (cases x)
     (simp_all add: registerCall_def removeCall_def Close_def terminateCalls_def Let_def
        split: prod.splits)

lemma closing_exec_ops: "closing c \<Longrightarrow> closing (exec_ops xs c)"
  by (induction xs arbitrary: c) (simp_all add: closing_exec_op del: exec_op.simps)

lemma shutdown_exec_ops: "shutdown c \<Longrightarrow> shutdown (exec_ops xs c)"
  by (induction xs arbitrary: c) (simp_all add: shutdown_exec_op del: exec_op.simps)

lemma closing_after_Close: "closing (snd (Close c))"
  by (simp add: Close_def split: prod.splits)

lemma send_unavailable:
  "closing c \<or> shutdown c \<Longrightarrow>
   send c call = (call\<lparr>Call.Error := Some ErrShutdown, Done := Done call + 1\<rparr>, c)"
  by (simp add: send_def registerCall_def call_done_def)

text \<open>
  C4. \<^verbatim>\<open>Close\<close> on a client that is not closing sets \<open>closing\<close>, calls the
  codec's \<^verbatim>\<open>Close\<close> and returns its result; on a closing client it returns
  \<^verbatim>\<open>ErrShutdown\<close>, "connection is shut down", and changes nothing. After a first
  \<^verbatim>\<open>Close\<close>, whatever the client does next, \<^verbatim>\<open>Close\<close> returns the sentinel. Once
  \<open>closing\<close> or \<open>shutdown\<close> holds, whatever the client does next,
  \<^verbatim>\<open>registerCall\<close> fails with the sentinel, and \<^verbatim>\<open>send\<close> gives it to the call
  and fires its done signal.
\<close>

theorem Close_guarded:
  "ErrShutdown = ''connection is shut down'' \<and>
   (\<not> closing c \<longrightarrow>
      Close c = (close_result (cc c),
                 c\<lparr>cc := (cc c)\<lparr>closes := closes (cc c) + 1\<rparr>, closing := True\<rparr>)) \<and>
   (closing c \<longrightarrow> Close c = (Some ErrShutdown, c)) \<and>
   fst (Close (exec_ops ops (snd (Close c)))) = Some ErrShutdown \<and>
   (closing c \<or> shutdown c \<longrightarrow>
      registerCall (exec_ops ops c) call = ((0, Some ErrShutdown), call, exec_ops ops c) \<and>
      send (exec_ops ops c) call =
        (call\<lparr>Call.Error := Some ErrShutdown, Done := Done call + 1\<rparr>, exec_ops ops c))"
proof -
  have "closing (exec_ops ops (snd (Close c)))"
    by (rule closing_exec_ops) (rule closing_after_Close)
  then have "fst (Close (exec_ops ops (snd (Close c)))) = Some ErrShutdown"
    by (simp add: Close_def)
  moreover have "closing c \<or> shutdown c \<Longrightarrow> closing (exec_ops ops c) \<or> shutdown (exec_ops ops c)"
    using closing_exec_ops shutdown_exec_ops by blast
  ultimately show ?thesis
    by (auto simp: ErrShutdown_def [symmetric] registerCall_unavailable send_unavailable)
       (simp_all add: Close_def cc_Close_def ErrShutdown_def)
qed

text \<open>
  The theorem at the fresh client: a first and a second \<^verbatim>\<open>Close\<close>, a registration
  after the first, and a registration after \<^verbatim>\<open>terminateCalls\<close>.
\<close>

theorem Close_guarded_witness:
  "\<not> closing client0 \<and>
   Close client0 = (None, client0\<lparr>cc := codec0\<lparr>closes := 1\<rparr>, closing := True\<rparr>) \<and>
   closing (snd (Close client0)) \<and>
   Close (snd (Close client0)) = (Some ErrShutdown, snd (Close client0)) \<and>
   fst (Close (exec_ops [op_registerCall call0, op_removeCall 1] (snd (Close client0)))) =
     Some ErrShutdown \<and>
   fst (registerCall (exec_ops [op_removeCall 1] (snd (Close client0))) call0) =
     (0, Some ErrShutdown) \<and>
   shutdown (terminateCalls client0 EOF) \<and>
   fst (registerCall (terminateCalls client0 EOF) call0) = (0, Some ErrShutdown)"
proof -
  have a: "\<not> closing client0"
    by (simp add: client0_def newClientCodec_def)
  have b: "closing (snd (Close client0))"
    by (simp add: Close_def a split: prod.splits)
  have "close_result (cc client0) = None"
    "client0\<lparr>cc := (cc client0)\<lparr>closes := closes (cc client0) + 1\<rparr>, closing := True\<rparr> =
     client0\<lparr>cc := codec0\<lparr>closes := 1\<rparr>, closing := True\<rparr>"
    by (simp_all add: client0_def newClientCodec_def codec0_def)
  with a Close_guarded [of client0 "[]" call0]
  have c: "Close client0 = (None, client0\<lparr>cc := codec0\<lparr>closes := 1\<rparr>, closing := True\<rparr>)"
    by metis
  from b Close_guarded [of "snd (Close client0)" "[op_removeCall 1]" call0]
  have d: "Close (snd (Close client0)) = (Some ErrShutdown, snd (Close client0))"
    "fst (registerCall (exec_ops [op_removeCall 1] (snd (Close client0))) call0) =
     (0, Some ErrShutdown)"
    by (metis, metis fst_conv)
  from Close_guarded [of client0 "[op_registerCall call0, op_removeCall 1]" call0]
  have e: "fst (Close (exec_ops [op_registerCall call0, op_removeCall 1] (snd (Close client0)))) =
     Some ErrShutdown"
    by blast
  have f: "shutdown (terminateCalls client0 EOF)"
    by (simp add: terminateCalls_def)
  with Close_guarded [of "terminateCalls client0 EOF" "[]" call0]
  have g: "fst (registerCall (terminateCalls client0 EOF) call0) = (0, Some ErrShutdown)"
    by simp
  from a b c d e f g show ?thesis by blast
qed

section \<open>Service lookup and the request loop (C5)\<close>

lemma LastIndex_absent: "c \<notin> set s \<Longrightarrow> LastIndex s c = -1"
  by (induction s) (auto simp: Let_def)

lemma LastIndex_ge: "- 1 \<le> LastIndex s c"
  by (induction s) (auto simp: Let_def)

lemma LastIndex_present: "c \<in> set s \<Longrightarrow> 0 \<le> LastIndex s c"
  by (induction s) (auto simp: Let_def)

lemma LastIndex_rightmost: "c \<notin> set b \<Longrightarrow> LastIndex (a @ c # b) c = int (length a)"
  by (induction a) (auto simp: Let_def LastIndex_absent)

lemma LastIndex_split:
  "c \<in> set s \<Longrightarrow>
   s = take (nat (LastIndex s c)) s @ c # drop (nat (LastIndex s c + 1)) s \<and>
   c \<notin> set (drop (nat (LastIndex s c + 1)) s)"
proof (induction s)
  case Nil
  then show ?case by simp
next
  case (Cons x xs)
  show ?case
  proof (cases "c \<in> set xs")
    case True
    then have "0 \<le> LastIndex xs c" by (rule LastIndex_present)
    with Cons.IH [OF True] show ?thesis
      by (simp add: Let_def nat_add_distrib)
  next
    case False
    with Cons.prems have "x = c" by simp
    with False show ?thesis
      by (simp add: Let_def LastIndex_absent)
  qed
qed

lemma dotted_name_splits:
  "CHR ''.'' \<in> set nm \<Longrightarrow> \<exists>sn mn. nm = sn @ ''.'' @ mn \<and> CHR ''.'' \<notin> set mn"
  using LastIndex_split [of "CHR ''.''" nm] by auto

lemma findService_no_dot:
  "CHR ''.'' \<notin> set sm \<Longrightarrow>
   findService server sm =
     (None, None, Some (''rpc server: service/method request ill-formed: '' @ sm))"
  by (simp add: findService_def LastIndex_absent)

lemma findService_split:
  "CHR ''.'' \<notin> set mn \<Longrightarrow>
   findService server (sn @ ''.'' @ mn) =
     (case serviceMap server sn of
        None \<Rightarrow> (None, None, Some (''rpc server: can't find service '' @ sn))
      | Some svc \<Rightarrow>
          (case method_map svc mn of
             None \<Rightarrow> (Some svc, None, Some (''rpc server: can't find method '' @ mn))
           | Some mt \<Rightarrow> (Some svc, Some mt, None)))"
  by (simp add: findService_def LastIndex_rightmost Let_def nat_add_distrib)

lemma readRequest_request_or_error: "fst (readRequest server c) \<noteq> (None, None)"
  by (auto simp: readRequest_def readRequestHeader_def cc_ReadHeader_def Let_def
           split: list.splits sum.splits prod.splits option.splits)

lemma readRequest_no_dot:
  assumes "CHR ''.'' \<notin> set (Header.ServiceMethod hdr)" "incoming c = m # ms" "as_header m = Inr hdr"
  shows "readRequest server c =
     ((Some \<lparr>h = hdr, argv = None, replyv = None, mtype = None, scv = None\<rparr>,
       Some (''rpc server: service/method request ill-formed: '' @ Header.ServiceMethod hdr)),
      c\<lparr>incoming := ms\<rparr>)"
  using assms
  by (simp add: readRequest_def readRequestHeader_def cc_ReadHeader_def findService_no_dot)

lemma serveCodec_no_dot:
  assumes "CHR ''.'' \<notin> set (Header.ServiceMethod hdr)" "incoming c = m # ms" "as_header m = Inr hdr"
  shows "serveCodec server c ob =
       (let resp = hdr\<lparr>Header.Error :=
                     ''rpc server: service/method request ill-formed: '' @ Header.ServiceMethod hdr\<rparr>;
            (acts, final) = serveCodec server (sendResponse (c\<lparr>incoming := ms\<rparr>) resp invalidRequest) ob
        in (Respond resp invalidRequest # acts, final))"
  by (subst serveCodec.simps) (simp add: readRequest_no_dot [OF assms] Let_def)

text \<open>
  The lookup: \<^verbatim>\<open>findService\<close> splits at the rightmost dot. A name with no dot gets
  the ill-formed error. A name \<open>sn.mn\<close> with no dot in \<open>mn\<close> is looked up as
  service \<open>sn\<close> and method \<open>mn\<close>: an unknown service gets the service error, a
  known service with an unknown method the method error. The three messages differ
  whatever the names are, and every name with a dot is of the form \<open>sn.mn\<close> with no
  dot in \<open>mn\<close>.
\<close>

lemma findService_lookup:
  "(CHR ''.'' \<notin> set sm \<longrightarrow>
      findService server sm =
        (None, None, Some (''rpc server: service/method request ill-formed: '' @ sm))) \<and>
   (CHR ''.'' \<notin> set mn \<longrightarrow>
      findService server (sn @ ''.'' @ mn) =
        (case serviceMap server sn of
           None \<Rightarrow> (None, None, Some (''rpc server: can't find service '' @ sn))
         | Some svc \<Rightarrow>
             (case method_map svc mn of
                None \<Rightarrow> (Some svc, None, Some (''rpc server: can't find method '' @ mn))
              | Some mt \<Rightarrow> (Some svc, Some mt, None)))) \<and>
   ''rpc server: can't find service '' @ x \<noteq> ''rpc server: can't find method '' @ y \<and>
   ''rpc server: service/method request ill-formed: '' @ z \<noteq> ''rpc server: can't find service '' @ x \<and>
   ''rpc server: service/method request ill-formed: '' @ z \<noteq> ''rpc server: can't find method '' @ y \<and>
   (CHR ''.'' \<in> set nm \<longrightarrow> (\<exists>sn mn. nm = sn @ ''.'' @ mn \<and> CHR ''.'' \<notin> set mn))"
  using findService_no_dot [of sm server] findService_split [of mn server sn]
    dotted_name_splits [of nm]
  by simp

lemma findService_examples:
  "findService server0 ''FooSum'' =
     (None, None, Some ''rpc server: service/method request ill-formed: FooSum'')"
  "findService server0 ''Bar.Sum'' = (None, None, Some ''rpc server: can't find service Bar'')"
  "findService server0 ''a.Foo.Sum'' = (None, None, Some ''rpc server: can't find service a.Foo'')"
  "findService server0 ''Foo.Mul'' =
     (Some Foo_service, None, Some ''rpc server: can't find method Mul'')"
  "findService server0 ''Foo.Sum'' = (Some Foo_service, Some Sum_method, None)"
  by (simp_all add: findService_def server0_def Foo_service_def Let_def)

text \<open>
  A request whose body does not decode is answered with the error and the loop goes on
  with the message after the body: \<^verbatim>\<open>readRequest\<close> has read the body by then.
\<close>

lemma serveCodec_bad_body_keeps_serving:
  assumes "findService server (Header.ServiceMethod hdr) = (Some svc, Some mt, None)"
    and "incoming c = m # b # rest" and "as_header m = Inr hdr" and "as_body b = Inl e"
  shows "serveCodec server c ob =
       (let resp = hdr\<lparr>Header.Error := e\<rparr>;
            (acts, final) =
              serveCodec server (sendResponse (c\<lparr>incoming := rest\<rparr>) resp invalidRequest) ob
        in (Respond resp invalidRequest # acts, final))"
  using assms
  by (subst serveCodec.simps)
     (simp add: readRequest_def readRequestHeader_def cc_ReadHeader_def cc_ReadBody_def Let_def)

text \<open>
  C5. The claim fails on the code for the request loop. A client writes every request as
  a header followed by a body. When the name in the header has no dot,
  \<^verbatim>\<open>readRequest\<close> returns at the failed lookup, before it reads the body; the loop
  writes the response that carries the ill-formed error and continues, and its next read
  of a header gets the body that was left. Where that body does not decode as a header,
  the read fails, \<^verbatim>\<open>readRequest\<close> returns no request, and the loop ends: the codec
  is closed and the requests that follow are not read. So the connection does not stay
  up after an ill-formed request, for every server, codec and option.
\<close>

theorem ill_formed_request_closes_connection:
  assumes "CHR ''.'' \<notin> set (Header.ServiceMethod hdr)"
    and "incoming c = m # b # rest" and "as_header m = Inr hdr" and "as_header b = Inl e"
  shows "serveCodec server c ob =
       ([Respond (hdr\<lparr>Header.Error :=
                    ''rpc server: service/method request ill-formed: '' @ Header.ServiceMethod hdr\<rparr>)
           invalidRequest],
        c\<lparr>incoming := rest,
          written := written c @
            [(hdr\<lparr>Header.Error :=
                   ''rpc server: service/method request ill-formed: '' @ Header.ServiceMethod hdr\<rparr>,
              invalidRequest)],
          write_results := tl (write_results c),
          closes := closes c + 1\<rparr>)"
proof -
  define resp where "resp = hdr\<lparr>Header.Error :=
     ''rpc server: service/method request ill-formed: '' @ Header.ServiceMethod hdr\<rparr>"
  define c1 where "c1 = sendResponse (c\<lparr>incoming := b # rest\<rparr>) resp invalidRequest"
  have step: "serveCodec server c ob =
      (Respond resp invalidRequest # fst (serveCodec server c1 ob), snd (serveCodec server c1 ob))"
    using serveCodec_no_dot [OF assms(1,2,3), of server ob]
    by (simp add: Let_def split_beta resp_def c1_def)
  have c1: "c1 = c\<lparr>incoming := b # rest,
                   written := written c @ [(resp, invalidRequest)],
                   write_results := tl (write_results c)\<rparr>"
    by (simp add: c1_def sendResponse_def cc_Write_def split: list.splits)
  have "incoming c1 = b # rest"
    by (simp add: c1)
  then have "readRequest server c1 = ((None, Some e), c1\<lparr>incoming := rest\<rparr>)"
    using assms(4)
    by (simp add: readRequest_def readRequestHeader_def cc_ReadHeader_def)
  then have "serveCodec server c1 ob = ([], snd (cc_Close (c1\<lparr>incoming := rest\<rparr>)))"
    by (subst serveCodec.simps) simp
  then have "serveCodec server c ob =
      ([Respond resp invalidRequest], snd (cc_Close (c1\<lparr>incoming := rest\<rparr>)))"
    by (simp add: step)
  moreover have "snd (cc_Close (c1\<lparr>incoming := rest\<rparr>)) =
      c\<lparr>incoming := rest, written := written c @ [(resp, invalidRequest)],
        write_results := tl (write_results c), closes := closes c + 1\<rparr>"
    by (simp add: c1 cc_Close_def)
  ultimately show ?thesis
    by (simp add: resp_def)
qed

text \<open>
  The theorem at the server with the service \<open>Foo\<close>, on the stream of a client that
  calls \<open>FooSum\<close> and then \<open>Foo.Sum\<close>: the second call is never read.
\<close>

theorem ill_formed_request_closes_connection_witness:
  "CHR ''.'' \<notin> set (Header.ServiceMethod
      \<lparr>Header.ServiceMethod = ''FooSum'', Header.Seq = 1, Header.Error = []\<rparr>) \<and>
   incoming (serving [header_msg ''FooSum'' 1, body_msg ''1 2'', header_msg ''Foo.Sum'' 2,
                      body_msg ''1 2'']) =
     header_msg ''FooSum'' 1 # body_msg ''1 2'' # [header_msg ''Foo.Sum'' 2, body_msg ''1 2''] \<and>
   as_header (header_msg ''FooSum'' 1) =
     Inr \<lparr>Header.ServiceMethod = ''FooSum'', Header.Seq = 1, Header.Error = []\<rparr> \<and>
   as_header (body_msg ''1 2'') = Inl ''gob: type mismatch'' \<and>
   serveCodec server0
     (serving [header_msg ''FooSum'' 1, body_msg ''1 2'', header_msg ''Foo.Sum'' 2,
               body_msg ''1 2''])
     DefaultOption_init =
   ([Respond ill_formed_FooSum invalidRequest],
    codec0\<lparr>incoming := [header_msg ''Foo.Sum'' 2, body_msg ''1 2''],
           written := [(ill_formed_FooSum, invalidRequest)], closes := 1\<rparr>)"
proof -
  let ?hdr = "\<lparr>Header.ServiceMethod = ''FooSum'', Header.Seq = 1, Header.Error = []\<rparr>"
  let ?rest = "[header_msg ''Foo.Sum'' 2, body_msg ''1 2'']"
  let ?c = "serving (header_msg ''FooSum'' 1 # body_msg ''1 2'' # ?rest)"
  have 1: "CHR ''.'' \<notin> set (Header.ServiceMethod ?hdr)"
    by simp
  have 2: "incoming ?c = header_msg ''FooSum'' 1 # body_msg ''1 2'' # ?rest"
    by (simp add: serving_def)
  have 3: "as_header (header_msg ''FooSum'' 1) = Inr ?hdr"
    by (simp add: header_msg_def)
  have 4: "as_header (body_msg ''1 2'') = Inl ''gob: type mismatch''"
    by (simp add: body_msg_def)
  have "serveCodec server0 ?c DefaultOption_init =
   ([Respond ill_formed_FooSum invalidRequest],
    codec0\<lparr>incoming := ?rest, written := [(ill_formed_FooSum, invalidRequest)], closes := 1\<rparr>)"
    unfolding ill_formed_request_closes_connection [OF 1 2 3 4, of server0 DefaultOption_init]
    by (simp add: serving_def codec0_def ill_formed_FooSum_def)
  with 1 2 3 4 show ?thesis by simp
qed

section \<open>Broadcast (C6)\<close>

lemma first_error_simps:
  "first_error [] = None"
  "first_error (r # rs) = (if fst r \<noteq> None then fst r else first_error rs)"
  by (simp_all add: first_error_def)

lemma first_success_simps:
  "first_success [] = None"
  "first_success (r # rs) = (if fst r = None then Some (snd r) else first_success rs)"
  by (simp_all add: first_success_def)

lemma Broadcast_locked_fields:
  "bc_e (Broadcast_locked st (err, v)) = (if bc_e st = None then err else bc_e st)"
  "bc_cancel (Broadcast_locked st (err, v)) =
     (if err \<noteq> None \<and> bc_e st = None then bc_cancel st + 1 else bc_cancel st)"
  "bc_replyDone (Broadcast_locked st (err, v)) = (bc_replyDone st \<or> err = None)"
  "bc_reply (Broadcast_locked st (err, v)) =
     (if err = None \<and> \<not> bc_replyDone st then Some v else bc_reply st)"
  by (auto simp: Broadcast_locked_def Let_def)

lemma foldl_Broadcast_locked:
  "bc_e (foldl Broadcast_locked st rs) = (if bc_e st \<noteq> None then bc_e st else first_error rs) \<and>
   bc_cancel (foldl Broadcast_locked st rs) =
     bc_cancel st + (if bc_e st = None \<and> first_error rs \<noteq> None then 1 else 0) \<and>
   bc_reply (foldl Broadcast_locked st rs) =
     (if bc_replyDone st then bc_reply st
      else (case first_success rs of None \<Rightarrow> bc_reply st | Some v \<Rightarrow> Some v))"
proof (induction rs arbitrary: st)
  case Nil
  show ?case by (simp add: first_error_simps first_success_simps)
next
  case (Cons r rs)
  obtain err v where r: "r = (err, v)" by (cases r)
  note ih = Cons.IH [of "Broadcast_locked st (err, v)"]
  show ?case
  proof (intro conjI)
    show "bc_e (foldl Broadcast_locked st (r # rs)) =
          (if bc_e st \<noteq> None then bc_e st else first_error (r # rs))"
      using ih by (auto simp: r Broadcast_locked_fields first_error_simps)
    show "bc_cancel (foldl Broadcast_locked st (r # rs)) =
          bc_cancel st + (if bc_e st = None \<and> first_error (r # rs) \<noteq> None then 1 else 0)"
      using ih by (auto simp: r Broadcast_locked_fields first_error_simps)
    show "bc_reply (foldl Broadcast_locked st (r # rs)) =
          (if bc_replyDone st then bc_reply st
           else (case first_success (r # rs) of None \<Rightarrow> bc_reply st | Some v \<Rightarrow> Some v))"
      using ih by (auto simp: r Broadcast_locked_fields first_success_simps split: option.splits)
  qed
qed

lemma first_error_None: "first_error rs = None \<longleftrightarrow> (\<forall>r \<in> set rs. fst r = None)"
  by (induction rs) (auto simp: first_error_simps)

lemma first_error_after_successes:
  "\<forall>r \<in> set pre. fst r = None \<Longrightarrow> first_error (pre @ (Some x, v) # post) = Some x"
  by (induction pre) (auto simp: first_error_simps)

text \<open>
  C6. When \<^verbatim>\<open>GetAll\<close> fails \<^verbatim>\<open>Broadcast\<close> returns its error. Otherwise, for the
  results of the calls in the order in which they are aggregated under the mutex: the
  error returned is the first error observed, nil when every call succeeded;
  \<^verbatim>\<open>cancel\<close> is called once when there is an error and not at all when there is none;
  the caller's reply is the reply of the first success, unchanged when no call succeeded,
  and never written when the caller passed nil.
\<close>

theorem Broadcast_first_error_first_reply:
  "Broadcast (Inl err) reply xc_call order = (Some err, reply, 0) \<and>
   Broadcast (Inr addrs) reply xc_call order =
     (first_error (Broadcast_results addrs xc_call order),
      (if reply = None then None
       else (case first_success (Broadcast_results addrs xc_call order) of
               None \<Rightarrow> reply
             | Some v \<Rightarrow> Some v)),
      (if first_error (Broadcast_results addrs xc_call order) = None then 0 else 1)) \<and>
   ((\<forall>r \<in> set (Broadcast_results addrs xc_call order). fst r = None) \<longrightarrow>
      fst (Broadcast (Inr addrs) reply xc_call order) = None) \<and>
   (Broadcast_results addrs xc_call order = pre @ (Some x, v) # post \<and>
    (\<forall>r \<in> set pre. fst r = None) \<longrightarrow>
      fst (Broadcast (Inr addrs) reply xc_call order) = Some x)"
proof -
  let ?rs = "Broadcast_results addrs xc_call order"
  have a: "Broadcast (Inr addrs) reply xc_call order =
     (first_error ?rs,
      (if reply = None then None
       else (case first_success ?rs of None \<Rightarrow> reply | Some v \<Rightarrow> Some v)),
      (if first_error ?rs = None then 0 else 1))"
    by (auto simp: Broadcast_def Let_def foldl_Broadcast_locked split: option.splits)
  have b: "Broadcast (Inl err) reply xc_call order = (Some err, reply, 0)"
    by (simp add: Broadcast_def)
  have c: "(\<forall>r \<in> set ?rs. fst r = None) \<longrightarrow> fst (Broadcast (Inr addrs) reply xc_call order) = None"
    unfolding a by (simp add: first_error_None)
  have d: "?rs = pre @ (Some x, v) # post \<and> (\<forall>r \<in> set pre. fst r = None) \<longrightarrow>
      fst (Broadcast (Inr addrs) reply xc_call order) = Some x"
    unfolding a using first_error_after_successes [of pre x v post] by auto
  from a b c d show ?thesis by blast
qed

text \<open>
  The theorem at three servers of which the second answers with an error, the
  goroutines taking the mutex in the order 0, 1, 2 and in the order 1, 2, 0; at three
  successes; and at a nil reply.
\<close>

theorem Broadcast_first_error_first_reply_witness:
  "Broadcast_results three_servers second_fails [0, 1, 2] =
     [(None, Value ''3 from tcp@a'')] @ (Some ''context canceled'', Value ''0'') #
     [(None, Value ''3 from tcp@c'')] \<and>
   Broadcast (Inr three_servers) (Some (Value ''0'')) second_fails [0, 1, 2] =
     (Some ''context canceled'', Some (Value ''3 from tcp@a''), 1) \<and>
   Broadcast (Inr three_servers) (Some (Value ''0'')) second_fails [1, 2, 0] =
     (Some ''context canceled'', Some (Value ''3 from tcp@c''), 1) \<and>
   Broadcast (Inr three_servers) (Some (Value ''0'')) all_succeed [2, 0, 1] =
     (None, Some (Value ''3 from tcp@c''), 0) \<and>
   Broadcast (Inr three_servers) None all_succeed [0, 1, 2] = (None, None, 0)"
proof -
  have r1: "Broadcast_results three_servers second_fails [0, 1, 2] =
     [(None, Value ''3 from tcp@a'')] @ (Some ''context canceled'', Value ''0'') #
     [(None, Value ''3 from tcp@c'')]"
    by (simp add: Broadcast_results_def three_servers_def second_fails_def)
  have r2: "Broadcast_results three_servers second_fails [1, 2, 0] =
     [] @ (Some ''context canceled'', Value ''0'') #
     [(None, Value ''3 from tcp@c''), (None, Value ''3 from tcp@a'')]"
    by (simp add: Broadcast_results_def three_servers_def second_fails_def)
  have r3: "Broadcast_results three_servers all_succeed [2, 0, 1] =
     [(None, Value ''3 from tcp@c''), (None, Value ''3 from tcp@a''),
      (None, Value ''3 from tcp@b'')]"
    "Broadcast_results three_servers all_succeed [0, 1, 2] =
     [(None, Value ''3 from tcp@a''), (None, Value ''3 from tcp@b''),
      (None, Value ''3 from tcp@c'')]"
    by (simp_all add: Broadcast_results_def three_servers_def all_succeed_def)
  have 1: "Broadcast (Inr three_servers) (Some (Value ''0'')) second_fails [0, 1, 2] =
     (Some ''context canceled'', Some (Value ''3 from tcp@a''), 1)"
    using Broadcast_first_error_first_reply [of "[]" "Some (Value ''0'')" second_fails
        "[0, 1, 2]" three_servers "[(None, Value ''3 from tcp@a'')]" "''context canceled''"
        "Value ''0''" "[(None, Value ''3 from tcp@c'')]"]
    unfolding r1 by (simp add: first_error_simps first_success_simps)
  have 2: "Broadcast (Inr three_servers) (Some (Value ''0'')) second_fails [1, 2, 0] =
     (Some ''context canceled'', Some (Value ''3 from tcp@c''), 1)"
    using Broadcast_first_error_first_reply [of "[]" "Some (Value ''0'')" second_fails
        "[1, 2, 0]" three_servers "[]" "''context canceled''"
        "Value ''0''" "[(None, Value ''3 from tcp@c''), (None, Value ''3 from tcp@a'')]"]
    unfolding r2 by (simp add: first_error_simps first_success_simps)
  have 3: "Broadcast (Inr three_servers) (Some (Value ''0'')) all_succeed [2, 0, 1] =
     (None, Some (Value ''3 from tcp@c''), 0)"
    using Broadcast_first_error_first_reply [of "[]" "Some (Value ''0'')" all_succeed
        "[2, 0, 1]" three_servers "[]" "[]" "Value []" "[]"]
    unfolding r3 by (simp add: first_error_simps first_success_simps)
  have 4: "Broadcast (Inr three_servers) None all_succeed [0, 1, 2] = (None, None, 0)"
    using Broadcast_first_error_first_reply [of "[]" None all_succeed
        "[0, 1, 2]" three_servers "[]" "[]" "Value []" "[]"]
    unfolding r3 by (simp add: first_error_simps first_success_simps)
  from r1 1 2 3 4 show ?thesis by blast
qed

section \<open>The registry over HTTP (C7)\<close>

lemma filter_filter_mapping:
  "Mapping.filter P (Mapping.filter Q m) = Mapping.filter (\<lambda>k v. Q k v \<and> P k v) m"
  by transfer (auto simp: fun_eq_iff split: option.splits)

lemma finite_keys_filter:
  "finite (Mapping.keys m) \<Longrightarrow> finite (Mapping.keys (Mapping.filter P m))"
  by (rule finite_subset [OF keys_filter])

lemma alive_iff: "alive r s now \<longleftrightarrow> timeout r = 0 \<or> now - start s < timeout r"
  by (auto simp: alive_def)

lemma ServeHTTP_GET:
  "Method req = ''GET'' \<Longrightarrow>
   ServeHTTP r req clock1 clock2 now =
     (\<lparr>WriteHeader = None,
       resp_X_Simplerpc_Servers = Some (Join (Mapping.ordered_keys
          (Mapping.filter (\<lambda>a s. alive r s (clock1 a) \<and> alive r s (clock2 a)) (SimpleRegistry.servers r))) '','')\<rparr>,
      r\<lparr>servers := Mapping.filter (\<lambda>a s. alive r s (clock1 a) \<and> alive r s (clock2 a)) (SimpleRegistry.servers r)\<rparr>)"
  by (simp add: ServeHTTP_def aliveServers_def Let_def filter_filter_mapping alive_def)

lemma ServeHTTP_POST_empty:
  "Method req = ''POST'' \<Longrightarrow> req_X_Simplerpc_Servers req = [] \<Longrightarrow>
   ServeHTTP r req clock1 clock2 now =
     (\<lparr>WriteHeader = Some 500, resp_X_Simplerpc_Servers = None\<rparr>, r)"
  by (simp add: ServeHTTP_def StatusInternalServerError_def)

lemma ServeHTTP_POST:
  "Method req = ''POST'' \<Longrightarrow> req_X_Simplerpc_Servers req \<noteq> [] \<Longrightarrow>
   ServeHTTP r req clock1 clock2 now =
     (\<lparr>WriteHeader = None, resp_X_Simplerpc_Servers = None\<rparr>,
      putServer r (req_X_Simplerpc_Servers req) now)"
  by (simp add: ServeHTTP_def)

lemma ServeHTTP_other:
  "Method req \<noteq> ''GET'' \<Longrightarrow> Method req \<noteq> ''POST'' \<Longrightarrow>
   ServeHTTP r req clock1 clock2 now =
     (\<lparr>WriteHeader = Some 405, resp_X_Simplerpc_Servers = None\<rparr>, r)"
  by (simp add: ServeHTTP_def StatusMethodNotAllowed_def)

lemma putServer_upsert:
  "timeout (putServer r addr now) = timeout r \<and>
   Mapping.lookup (SimpleRegistry.servers (putServer r addr now)) =
     (Mapping.lookup (SimpleRegistry.servers r))
       (addr \<mapsto> (case Mapping.lookup (SimpleRegistry.servers r) addr of
                    None \<Rightarrow> \<lparr>Addr = addr, start = now\<rparr>
                  | Some s \<Rightarrow> s\<lparr>start := now\<rparr>))"
  by (auto simp: putServer_def lookup_update' fun_eq_iff split: option.splits)

text \<open>
  C7. An entry is alive iff the time-out is 0 or the time since its last heartbeat is
  less than the time-out. A GET, on a registry with finitely many entries, keeps exactly
  the entries that are alive at both of its readings of the clock (at the second, when
  the clock does not go back), deletes the others, and puts the keys that are left,
  sorted and joined by commas, in the header \<^verbatim>\<open>X-Simplerpc-Servers\<close>. A POST with an empty header answers 500 and changes
  nothing; a POST with an address stores it with the current time, as a new entry or in
  place of the time of the old one. Any other method answers 405 and changes nothing.
\<close>

theorem registry_ServeHTTP:
  "(alive r s t \<longleftrightarrow> timeout r = 0 \<or> t - start s < timeout r) \<and>
   (Method req = ''GET'' \<and> finite (Mapping.keys (SimpleRegistry.servers r)) \<longrightarrow>
      SimpleRegistry.servers (snd (ServeHTTP r req clock1 clock2 now)) =
        Mapping.filter (\<lambda>a s. alive r s (clock1 a) \<and> alive r s (clock2 a)) (SimpleRegistry.servers r) \<and>
      ((\<forall>a. clock1 a \<le> clock2 a) \<longrightarrow>
         SimpleRegistry.servers (snd (ServeHTTP r req clock1 clock2 now)) =
           Mapping.filter (\<lambda>a s. alive r s (clock2 a)) (SimpleRegistry.servers r)) \<and>
      timeout (snd (ServeHTTP r req clock1 clock2 now)) = timeout r \<and>
      fst (ServeHTTP r req clock1 clock2 now) =
        \<lparr>WriteHeader = None,
         resp_X_Simplerpc_Servers =
           Some (Join (Mapping.ordered_keys (SimpleRegistry.servers (snd (ServeHTTP r req clock1 clock2 now))))
                   '','')\<rparr> \<and>
      sorted (Mapping.ordered_keys (SimpleRegistry.servers (snd (ServeHTTP r req clock1 clock2 now)))) \<and>
      distinct (Mapping.ordered_keys (SimpleRegistry.servers (snd (ServeHTTP r req clock1 clock2 now)))) \<and>
      set (Mapping.ordered_keys (SimpleRegistry.servers (snd (ServeHTTP r req clock1 clock2 now)))) =
        Mapping.keys (SimpleRegistry.servers (snd (ServeHTTP r req clock1 clock2 now)))) \<and>
   (Method req = ''POST'' \<and> req_X_Simplerpc_Servers req = [] \<longrightarrow>
      ServeHTTP r req clock1 clock2 now =
        (\<lparr>WriteHeader = Some 500, resp_X_Simplerpc_Servers = None\<rparr>, r)) \<and>
   (Method req = ''POST'' \<and> req_X_Simplerpc_Servers req \<noteq> [] \<longrightarrow>
      fst (ServeHTTP r req clock1 clock2 now) =
        \<lparr>WriteHeader = None, resp_X_Simplerpc_Servers = None\<rparr> \<and>
      timeout (snd (ServeHTTP r req clock1 clock2 now)) = timeout r \<and>
      Mapping.lookup (SimpleRegistry.servers (snd (ServeHTTP r req clock1 clock2 now))) =
        (Mapping.lookup (SimpleRegistry.servers r))
          (req_X_Simplerpc_Servers req \<mapsto>
             (case Mapping.lookup (SimpleRegistry.servers r) (req_X_Simplerpc_Servers req) of
                None \<Rightarrow> \<lparr>Addr = req_X_Simplerpc_Servers req, start = now\<rparr>
              | Some s \<Rightarrow> s\<lparr>start := now\<rparr>))) \<and>
   (Method req \<noteq> ''GET'' \<and> Method req \<noteq> ''POST'' \<longrightarrow>
      ServeHTTP r req clock1 clock2 now =
        (\<lparr>WriteHeader = Some 405, resp_X_Simplerpc_Servers = None\<rparr>, r))"
proof (intro conjI impI)
  show "alive r s t \<longleftrightarrow> timeout r = 0 \<or> t - start s < timeout r"
    by (rule alive_iff)
next
  assume "Method req = ''POST'' \<and> req_X_Simplerpc_Servers req = []"
  then show "ServeHTTP r req clock1 clock2 now =
        (\<lparr>WriteHeader = Some 500, resp_X_Simplerpc_Servers = None\<rparr>, r)"
    by (simp add: ServeHTTP_POST_empty)
next
  assume "Method req \<noteq> ''GET'' \<and> Method req \<noteq> ''POST''"
  then show "ServeHTTP r req clock1 clock2 now =
        (\<lparr>WriteHeader = Some 405, resp_X_Simplerpc_Servers = None\<rparr>, r)"
    by (simp add: ServeHTTP_other)
next
  assume p: "Method req = ''POST'' \<and> req_X_Simplerpc_Servers req \<noteq> []"
  then have eq: "ServeHTTP r req clock1 clock2 now =
     (\<lparr>WriteHeader = None, resp_X_Simplerpc_Servers = None\<rparr>,
      putServer r (req_X_Simplerpc_Servers req) now)"
    by (simp add: ServeHTTP_POST)
  show "fst (ServeHTTP r req clock1 clock2 now) =
        \<lparr>WriteHeader = None, resp_X_Simplerpc_Servers = None\<rparr>"
    by (simp add: eq)
  show "timeout (snd (ServeHTTP r req clock1 clock2 now)) = timeout r"
    by (simp add: eq putServer_upsert)
  show "Mapping.lookup (SimpleRegistry.servers (snd (ServeHTTP r req clock1 clock2 now))) =
        (Mapping.lookup (SimpleRegistry.servers r))
          (req_X_Simplerpc_Servers req \<mapsto>
             (case Mapping.lookup (SimpleRegistry.servers r) (req_X_Simplerpc_Servers req) of
                None \<Rightarrow> \<lparr>Addr = req_X_Simplerpc_Servers req, start = now\<rparr>
              | Some s \<Rightarrow> s\<lparr>start := now\<rparr>))"
    unfolding eq snd_conv using putServer_upsert [of r "req_X_Simplerpc_Servers req" now]
    by blast
next
  assume g: "Method req = ''GET'' \<and> finite (Mapping.keys (SimpleRegistry.servers r))"
  let ?kept = "Mapping.filter (\<lambda>a s. alive r s (clock1 a) \<and> alive r s (clock2 a)) (SimpleRegistry.servers r)"
  from g have eq: "ServeHTTP r req clock1 clock2 now =
     (\<lparr>WriteHeader = None,
       resp_X_Simplerpc_Servers = Some (Join (Mapping.ordered_keys ?kept) '','')\<rparr>,
      r\<lparr>servers := ?kept\<rparr>)"
    by (simp add: ServeHTTP_GET)
  from g have fin: "finite (Mapping.keys ?kept)"
    by (simp add: finite_keys_filter)
  show "SimpleRegistry.servers (snd (ServeHTTP r req clock1 clock2 now)) = ?kept"
    by (simp add: eq)
  show "SimpleRegistry.servers (snd (ServeHTTP r req clock1 clock2 now)) =
        Mapping.filter (\<lambda>a s. alive r s (clock2 a)) (SimpleRegistry.servers r)"
    if "\<forall>a. clock1 a \<le> clock2 a"
  proof -
    have "alive r s (clock1 a) \<and> alive r s (clock2 a) \<longleftrightarrow> alive r s (clock2 a)" for a s
      using that [rule_format, of a] by (auto simp: alive_def)
    then show ?thesis by (simp add: eq)
  qed
  show "timeout (snd (ServeHTTP r req clock1 clock2 now)) = timeout r"
    by (simp add: eq)
  show "fst (ServeHTTP r req clock1 clock2 now) =
        \<lparr>WriteHeader = None,
         resp_X_Simplerpc_Servers =
           Some (Join (Mapping.ordered_keys (SimpleRegistry.servers (snd (ServeHTTP r req clock1 clock2 now))))
                   '','')\<rparr>"
    by (simp add: eq)
  show "sorted (Mapping.ordered_keys (SimpleRegistry.servers (snd (ServeHTTP r req clock1 clock2 now))))"
    by simp
  show "distinct (Mapping.ordered_keys (SimpleRegistry.servers (snd (ServeHTTP r req clock1 clock2 now))))"
    by simp
  show "set (Mapping.ordered_keys (SimpleRegistry.servers (snd (ServeHTTP r req clock1 clock2 now)))) =
        Mapping.keys (SimpleRegistry.servers (snd (ServeHTTP r req clock1 clock2 now)))"
    using fin by (simp add: eq)
qed

lemma registry3_eval:
  "Mapping.ordered_keys (SimpleRegistry.servers registry3) = [''http@c'', ''tcp@a'', ''tcp@b'']"
  "Mapping.ordered_keys (SimpleRegistry.servers (snd (ServeHTTP registry3 GET (\<lambda>a. 6) (\<lambda>a. 6) 6))) = [''http@c'', ''tcp@a'']"
  "resp_X_Simplerpc_Servers (fst (ServeHTTP registry3 GET (\<lambda>a. 6) (\<lambda>a. 6) 6)) = Some ''http@c,tcp@a''"
  by code_simp+

lemma finite_keys_putServer:
  "finite (Mapping.keys (SimpleRegistry.servers r)) \<Longrightarrow> finite (Mapping.keys (SimpleRegistry.servers (putServer r addr now)))"
  by (simp add: putServer_def split: option.splits)

lemma finite_keys_ServeHTTP:
  "finite (Mapping.keys (SimpleRegistry.servers r)) \<Longrightarrow>
   finite (Mapping.keys (SimpleRegistry.servers (snd (ServeHTTP r req clock1 clock2 now))))"
  by (simp add: ServeHTTP_def aliveServers_def Let_def finite_keys_filter finite_keys_putServer)

lemma registry3_finite: "finite (Mapping.keys (SimpleRegistry.servers registry3))"
  unfolding registry3_def by (intro finite_keys_ServeHTTP) (simp add: New_def)

text \<open>
  The theorem at the registry of three servers: at time 6 the entry of time 0 has
  expired, as it has at time 5, and the other two are listed.
\<close>

theorem registry_ServeHTTP_witness:
  "Method GET = ''GET'' \<and> finite (Mapping.keys (SimpleRegistry.servers registry3)) \<and>
   alive registry3 \<lparr>Addr = ''tcp@a'', start = 3\<rparr> 6 \<and>
   \<not> alive registry3 \<lparr>Addr = ''tcp@b'', start = 0\<rparr> 6 \<and>
   \<not> alive registry3 \<lparr>Addr = ''tcp@b'', start = 0\<rparr> 5 \<and>
   fst (ServeHTTP registry3 GET (\<lambda>a. 6) (\<lambda>a. 6) 6) =
     \<lparr>WriteHeader = None, resp_X_Simplerpc_Servers = Some ''http@c,tcp@a''\<rparr> \<and>
   Mapping.keys (SimpleRegistry.servers (snd (ServeHTTP registry3 GET (\<lambda>a. 6) (\<lambda>a. 6) 6))) =
     {''http@c'', ''tcp@a''} \<and>
   ServeHTTP registry3 (POST []) (\<lambda>a. 6) (\<lambda>a. 6) 6 =
     (\<lparr>WriteHeader = Some 500, resp_X_Simplerpc_Servers = None\<rparr>, registry3) \<and>
   Mapping.lookup (SimpleRegistry.servers (snd (ServeHTTP registry3 (POST ''tcp@b'') (\<lambda>a. 6) (\<lambda>a. 6) 6)))
     ''tcp@b'' = Some \<lparr>Addr = ''tcp@b'', start = 6\<rparr> \<and>
   ServeHTTP registry3 PUT (\<lambda>a. 6) (\<lambda>a. 6) 6 =
     (\<lparr>WriteHeader = Some 405, resp_X_Simplerpc_Servers = None\<rparr>, registry3)"
proof -
  have g: "Method GET = ''GET''" by (simp add: GET_def)
  have t: "timeout registry3 = 5"
    by code_simp
  have b: "Mapping.lookup (SimpleRegistry.servers registry3) ''tcp@b'' = Some \<lparr>Addr = ''tcp@b'', start = 0\<rparr>"
    by code_simp
  note get = registry_ServeHTTP [of registry3 "\<lparr>Addr = ''tcp@a'', start = 3\<rparr>" 6 GET "\<lambda>a. 6" "\<lambda>a. 6" 6]
  note post_empty = registry_ServeHTTP [of registry3 "\<lparr>Addr = ''tcp@b'', start = 0\<rparr>" 6 "POST []" "\<lambda>a. 6" "\<lambda>a. 6" 6]
  note post = registry_ServeHTTP [of registry3 "\<lparr>Addr = ''tcp@b'', start = 0\<rparr>" 5 "POST ''tcp@b''" "\<lambda>a. 6" "\<lambda>a. 6" 6]
  note put = registry_ServeHTTP [of registry3 "\<lparr>Addr = ''tcp@b'', start = 0\<rparr>" 5 PUT "\<lambda>a. 6" "\<lambda>a. 6" 6]
  have 1: "alive registry3 \<lparr>Addr = ''tcp@a'', start = 3\<rparr> 6"
    using get by (simp add: t)
  have 2: "\<not> alive registry3 \<lparr>Addr = ''tcp@b'', start = 0\<rparr> 6"
    using post_empty by (simp add: t)
  have 3: "\<not> alive registry3 \<lparr>Addr = ''tcp@b'', start = 0\<rparr> 5"
    using post by (simp add: t)
  have 4: "fst (ServeHTTP registry3 GET (\<lambda>a. 6) (\<lambda>a. 6) 6) =
     \<lparr>WriteHeader = None, resp_X_Simplerpc_Servers = Some ''http@c,tcp@a''\<rparr>"
    using get g registry3_finite by (simp add: registry3_eval)
  have 5: "Mapping.keys (SimpleRegistry.servers (snd (ServeHTTP registry3 GET (\<lambda>a. 6) (\<lambda>a. 6) 6))) =
     {''http@c'', ''tcp@a''}"
    using get g registry3_finite by (simp add: registry3_eval)
  have 6: "ServeHTTP registry3 (POST []) (\<lambda>a. 6) (\<lambda>a. 6) 6 =
     (\<lparr>WriteHeader = Some 500, resp_X_Simplerpc_Servers = None\<rparr>, registry3)"
    using post_empty by (simp add: POST_def)
  have 7: "Mapping.lookup (SimpleRegistry.servers (snd (ServeHTTP registry3 (POST ''tcp@b'') (\<lambda>a. 6) (\<lambda>a. 6) 6)))
     ''tcp@b'' = Some \<lparr>Addr = ''tcp@b'', start = 6\<rparr>"
    using post by (simp add: POST_def b)
  have 8: "ServeHTTP registry3 PUT (\<lambda>a. 6) (\<lambda>a. 6) 6 =
     (\<lparr>WriteHeader = Some 405, resp_X_Simplerpc_Servers = None\<rparr>, registry3)"
    using put by (simp add: PUT_def)
  from g registry3_finite 1 2 3 4 5 6 7 8 show ?thesis by blast
qed

section \<open>The initial round-robin index (C9)\<close>




section \<open>Options and the handshake (C10)\<close>

lemma store0_default:
  "store0 DefaultOption = DefaultOption_init"
  by (simp add: store0_def)

lemma store0_upd:
  "store0(DefaultOption := DefaultOption_init) = store0"
  by (simp add: store0_def)

lemma gob_known:
  "NewCodecFuncMap (CodecType DefaultOption_init) = Some NewGobCodec"
  "NewCodecFuncMap (CodecType parsed0) = Some NewGobCodec"
  "NewCodecFuncMap (CodecType foreign) = Some NewGobCodec"
  by (simp_all add: NewCodecFuncMap_def DefaultOption_init_def parsed0_def foreign_def GobType_def)

lemma parseOptions_simps:
  "parseOptions s [] = (Inr DefaultOption, s)"
  "parseOptions s (None # rest) = (Inr DefaultOption, s)"
  "parseOptions s [Some p] =
     (Inr p, s(p := (s p)\<lparr>MagicNumber := MagicNumber (s DefaultOption),
                          CodecType := (if CodecType (s p) = [] then CodecType (s DefaultOption)
                                        else CodecType (s p))\<rparr>))"
  "parseOptions s (Some p # x # rest) = (Inl ''number of options is more than 1'', s)"
  by (simp_all add: parseOptions_def Let_def)

lemma parseOptions_default_kept:
  "snd (parseOptions s opts) DefaultOption = s DefaultOption"
proof (cases opts)
  case Nil
  then show ?thesis by (simp add: parseOptions_simps)
next
  case (Cons o1 rest)
  show ?thesis
  proof (cases o1)
    case None
    with Cons show ?thesis by (simp add: parseOptions_simps)
  next
    case (Some p)
    show ?thesis
    proof (cases rest)
      case Nil
      with Cons Some show ?thesis by (simp add: parseOptions_simps)
    next
      case (Cons x more)
      with \<open>opts = o1 # rest\<close> Some show ?thesis by (simp add: parseOptions_simps)
    qed
  qed
qed

lemma parseOptions_magic:
  assumes "parseOptions s opts = (Inr p, s1)"
  shows "MagicNumber (s1 p) = MagicNumber (s DefaultOption)"
proof (cases opts)
  case Nil
  with assms show ?thesis by (auto simp: parseOptions_simps)
next
  case (Cons o1 rest)
  show ?thesis
  proof (cases o1)
    case None
    with Cons assms show ?thesis by (auto simp: parseOptions_simps)
  next
    case (Some q)
    show ?thesis
    proof (cases rest)
      case Nil
      with Cons Some assms show ?thesis by (auto simp: parseOptions_simps)
    next
      case (Cons x more)
      with \<open>opts = o1 # rest\<close> Some assms show ?thesis by (simp add: parseOptions_simps)
    qed
  qed
qed

lemma parseOptions_default_pointer:
  assumes "parseOptions s opts = (Inr DefaultOption, s1)"
  shows "s1 DefaultOption = s DefaultOption"
  using parseOptions_default_kept [of s opts] assms by simp

lemma options_sent_simps:
  "options_sent None = []"
  "options_sent (Some new_conn) = []"
  "options_sent (Some (conn_Close conn)) = options_sent (Some conn)"
  "options_sent (Some (conn\<lparr>sent := sent conn @ [JSON ob]\<rparr>)) = options_sent (Some conn) @ [ob]"
  "options_sent (Some (conn\<lparr>sent := sent conn @ [Raw x]\<rparr>)) = options_sent (Some conn)"
  by (simp_all add: options_sent_def new_conn_def conn_Close_def)

lemma NewClient_sent:
  "options_sent (Some (fst (NewClient hs conn s p))) =
     options_sent (Some conn) @ (if NewCodecFuncMap (CodecType (s p)) = None then [] else [s p])"
  by (auto simp: NewClient_def Let_def options_sent_simps split: option.splits prod.splits)

lemma NewClient_built:
  "fst (snd (NewClient hs conn s p)) = Inr client \<Longrightarrow> NewCodecFuncMap (CodecType (s p)) \<noteq> None"
  by (auto simp: NewClient_def Let_def split: option.splits prod.splits)

lemma NewClient_store:
  "snd (snd (NewClient hs conn s p)) q = s q \<or>
   (q = p \<and> snd (snd (NewClient hs conn s p)) q = snd (decode_into hs (s p)))"
  by (auto simp: NewClient_def Let_def split: option.splits prod.splits)

lemma NewHTTPClient_sent:
  "options_sent (Some (fst (NewHTTPClient resp hs conn s p))) =
     options_sent (Some conn) @
     (if resp = Inr connected \<and> NewCodecFuncMap (CodecType (s p)) \<noteq> None then [s p] else [])"
  by (auto simp: NewHTTPClient_def Let_def options_sent_simps NewClient_sent split: sum.splits)

lemma NewHTTPClient_built:
  "fst (snd (NewHTTPClient resp hs conn s p)) = Inr client \<Longrightarrow>
   resp = Inr connected \<and> NewCodecFuncMap (CodecType (s p)) \<noteq> None"
  by (auto simp: NewHTTPClient_def Let_def split: sum.splits if_splits dest: NewClient_built)

lemma NewHTTPClient_store:
  "snd (snd (NewHTTPClient resp hs conn s p)) q = s q \<or>
   (q = p \<and> snd (snd (NewHTTPClient resp hs conn s p)) q = snd (decode_into hs (s p)))"
  using NewClient_store [of hs _ s p q]
  by (auto simp: NewHTTPClient_def Let_def split: sum.splits)

lemma dialTimeout_sent:
  assumes f: "\<And>s p. options_sent (Some (fst (f new_conn s p))) = (if P (s p) then [s p] else [])"
  shows "options_sent (fst (dialTimeout f s dialled late_test late_text timed_out show_duration opts)) =
     (case parseOptions s opts of
        (Inl err, s1) \<Rightarrow> []
      | (Inr p, s1) \<Rightarrow> if dialled = None \<and> P (s1 p) then [s1 p] else [])"
proof -
  obtain r s1 where po: "parseOptions s opts = (r, s1)"
    by (cases "parseOptions s opts")
  show ?thesis
  proof (cases r)
    case (Inl err)
    with po show ?thesis by (simp add: dialTimeout_def options_sent_simps)
  next
    case (Inr p)
    show ?thesis
    proof (cases dialled)
      case (Some err)
      with po Inr show ?thesis by (simp add: dialTimeout_def options_sent_simps)
    next
      case None
      obtain conn1 result s2 where r: "f new_conn s1 p = (conn1, result, s2)"
        by (cases "f new_conn s1 p")
      with f [of s1 p] have "options_sent (Some conn1) = (if P (s1 p) then [s1 p] else [])"
        by simp
      with po Inr None r show ?thesis
        by (simp add: dialTimeout_def Let_def options_sent_simps split: sum.splits)
    qed
  qed
qed

lemma dialTimeout_built:
  "fst (snd (dialTimeout f s dialled late_test late_text timed_out show_duration opts)) = Inr client \<Longrightarrow>
   \<exists>p s1. parseOptions s opts = (Inr p, s1) \<and> dialled = None \<and>
          fst (snd (f new_conn s1 p)) = Inr client"
  by (auto simp: dialTimeout_def Let_def split: sum.splits option.splits prod.splits if_splits)

lemma dialTimeout_store:
  "snd (snd (dialTimeout f s dialled late_test late_text timed_out show_duration opts)) =
     (case parseOptions s opts of
        (Inl err, s1) \<Rightarrow> s1
      | (Inr p, s1) \<Rightarrow> if dialled = None then snd (snd (f new_conn s1 p)) else s1)"
  by (auto simp: dialTimeout_def Let_def split: sum.splits option.splits prod.splits if_splits)

lemma Dial_sent:
  "options_sent (fst (Dial s dialled hs opts)) =
     (case parseOptions s opts of
        (Inl err, s1) \<Rightarrow> []
      | (Inr p, s1) \<Rightarrow>
          if dialled = None \<and> NewCodecFuncMap (CodecType (s1 p)) \<noteq> None then [s1 p] else [])"
proof -
  obtain r s1 where po: "parseOptions s opts = (r, s1)"
    by (cases "parseOptions s opts")
  show ?thesis
  proof (cases r)
    case (Inl err)
    with po show ?thesis by (simp add: Dial_def options_sent_simps)
  next
    case (Inr p)
    show ?thesis
    proof (cases dialled)
      case (Some err)
      with po Inr show ?thesis by (simp add: Dial_def options_sent_simps)
    next
      case None
      obtain conn1 result s2 where r: "NewClient hs new_conn s1 p = (conn1, result, s2)"
        by (cases "NewClient hs new_conn s1 p")
      with NewClient_sent [of hs new_conn s1 p]
      have "options_sent (Some conn1) =
          (if NewCodecFuncMap (CodecType (s1 p)) = None then [] else [s1 p])"
        by (simp add: options_sent_simps)
      with po Inr None r show ?thesis
        by (simp add: Dial_def options_sent_simps split: sum.splits)
    qed
  qed
qed

lemma Dial_built:
  "fst (snd (Dial s dialled hs opts)) = Inr client \<Longrightarrow>
   \<exists>p s1. parseOptions s opts = (Inr p, s1) \<and> dialled = None \<and>
          fst (snd (NewClient hs new_conn s1 p)) = Inr client"
  by (auto simp: Dial_def split: sum.splits option.splits prod.splits)

lemma Dial_store:
  "snd (snd (Dial s dialled hs opts)) =
     (case parseOptions s opts of
        (Inl err, s1) \<Rightarrow> s1
      | (Inr p, s1) \<Rightarrow> if dialled = None then snd (snd (NewClient hs new_conn s1 p)) else s1)"
  by (auto simp: Dial_def split: sum.splits option.splits prod.splits)

lemma accepted_parsed:
  "parseOptions s opts = (Inr p, s1) \<Longrightarrow> MagicNumber (s DefaultOption) = MagicNumber_const \<Longrightarrow>
   NewCodecFuncMap (CodecType (s1 p)) \<noteq> None \<Longrightarrow> accepted (s1 p)"
  by (simp add: accepted_def parseOptions_magic)

text \<open>
  The option at \<open>DefaultOption\<close> after a function that parses the options and then
  hands the pointer to a handshake: it is the one from before, or what the decoding of
  the peer's answer made of the one from before.
\<close>

lemma default_after:
  assumes f: "\<And>s p q. snd (snd (f new_conn s p)) q = s q \<or>
                (q = p \<and> snd (snd (f new_conn s p)) q = snd (decode_into hs (s p)))"
    and st: "s' = (case parseOptions s opts of
                     (Inl err, s1) \<Rightarrow> s1
                   | (Inr p, s1) \<Rightarrow> if dialled = None then snd (snd (f new_conn s1 p)) else s1)"
  shows "s' DefaultOption = s DefaultOption \<or>
         s' DefaultOption = snd (decode_into hs (s DefaultOption))"
proof -
  obtain r s1 where po: "parseOptions s opts = (r, s1)"
    by (cases "parseOptions s opts")
  from parseOptions_default_kept [of s opts] po have k: "s1 DefaultOption = s DefaultOption"
    by simp
  show ?thesis
  proof (cases r)
    case (Inl err)
    with po st k show ?thesis by simp
  next
    case (Inr p)
    show ?thesis
    proof (cases "dialled = None")
      case False
      with po st k Inr show ?thesis by simp
    next
      case True
      with po st Inr have s': "s' = snd (snd (f new_conn s1 p))"
        by simp
      from f [of s1 p DefaultOption] s' k show ?thesis
        by auto
    qed
  qed
qed

lemma Dial_default:
  "snd (snd (Dial s dialled hs opts)) DefaultOption = s DefaultOption \<or>
   snd (snd (Dial s dialled hs opts)) DefaultOption = snd (decode_into hs (s DefaultOption))"
  by (rule default_after [where f = "NewClient hs"]) (rule NewClient_store, rule Dial_store)

lemma DialWithTimeout_default:
  "snd (snd (DialWithTimeout s dialled hs late_test late_text timed_out show_duration opts))
     DefaultOption = s DefaultOption \<or>
   snd (snd (DialWithTimeout s dialled hs late_test late_text timed_out show_duration opts))
     DefaultOption = snd (decode_into hs (s DefaultOption))"
  unfolding DialWithTimeout_def
  by (rule default_after [where f = "NewClient hs"]) (rule NewClient_store, rule dialTimeout_store)

lemma DialHTTP_default:
  "snd (snd (DialHTTP s dialled resp hs late_test late_text timed_out show_duration opts))
     DefaultOption = s DefaultOption \<or>
   snd (snd (DialHTTP s dialled resp hs late_test late_text timed_out show_duration opts))
     DefaultOption = snd (decode_into hs (s DefaultOption))"
  unfolding DialHTTP_def
  by (rule default_after [where f = "NewHTTPClient resp hs"])
    (rule NewHTTPClient_store, rule dialTimeout_store)

lemma Dial_accepted:
  assumes m: "MagicNumber (s DefaultOption) = MagicNumber_const"
  shows "(\<forall>ob \<in> set (options_sent (fst (Dial s dialled hs opts))). accepted ob) \<and>
   (fst (snd (Dial s dialled hs opts)) = Inr client \<longrightarrow>
      (\<exists>ob. options_sent (fst (Dial s dialled hs opts)) = [ob] \<and> accepted ob))"
proof -
  have "\<forall>ob \<in> set (options_sent (fst (Dial s dialled hs opts))). accepted ob"
    using m by (auto simp: Dial_sent accepted_parsed split: sum.splits if_splits prod.splits)
  moreover have "\<exists>ob. options_sent (fst (Dial s dialled hs opts)) = [ob] \<and> accepted ob"
    if "fst (snd (Dial s dialled hs opts)) = Inr client"
  proof -
    from Dial_built [OF that] obtain p s1 where
      ob: "parseOptions s opts = (Inr p, s1)" "dialled = None"
        "fst (snd (NewClient hs new_conn s1 p)) = Inr client"
      by blast
    then have "NewCodecFuncMap (CodecType (s1 p)) \<noteq> None"
      by (auto dest: NewClient_built)
    with ob m show ?thesis
      by (simp add: Dial_sent accepted_parsed)
  qed
  ultimately show ?thesis by blast
qed

lemma DialWithTimeout_accepted:
  assumes m: "MagicNumber (s DefaultOption) = MagicNumber_const"
  shows "(\<forall>ob \<in> set (options_sent (fst (DialWithTimeout s dialled hs late_test late_text timed_out
                                        show_duration opts))). accepted ob) \<and>
   (fst (snd (DialWithTimeout s dialled hs late_test late_text timed_out show_duration opts)) =
      Inr client \<longrightarrow>
      (\<exists>ob. options_sent (fst (DialWithTimeout s dialled hs late_test late_text timed_out
                                 show_duration opts)) = [ob] \<and> accepted ob))"
proof -
  let ?d = "DialWithTimeout s dialled hs late_test late_text timed_out show_duration opts"
  have s: "options_sent (fst ?d) =
     (case parseOptions s opts of
        (Inl err, s1) \<Rightarrow> []
      | (Inr p, s1) \<Rightarrow>
          if dialled = None \<and> NewCodecFuncMap (CodecType (s1 p)) \<noteq> None then [s1 p] else [])"
    unfolding DialWithTimeout_def
    by (rule dialTimeout_sent) (simp add: NewClient_sent options_sent_simps)
  have "\<forall>ob \<in> set (options_sent (fst ?d)). accepted ob"
    using m by (auto simp: s accepted_parsed split: sum.splits if_splits prod.splits)
  moreover have "\<exists>ob. options_sent (fst ?d) = [ob] \<and> accepted ob"
    if "fst (snd ?d) = Inr client"
  proof -
    from dialTimeout_built [OF that [unfolded DialWithTimeout_def]] obtain p s1 where
      ob: "parseOptions s opts = (Inr p, s1)" "dialled = None"
        "fst (snd (NewClient hs new_conn s1 p)) = Inr client"
      by blast
    then have "NewCodecFuncMap (CodecType (s1 p)) \<noteq> None"
      by (auto dest: NewClient_built)
    with ob s m show ?thesis
      by (simp add: accepted_parsed)
  qed
  ultimately show ?thesis by blast
qed

lemma DialHTTP_accepted:
  assumes m: "MagicNumber (s DefaultOption) = MagicNumber_const"
  shows "(\<forall>ob \<in> set (options_sent (fst (DialHTTP s dialled resp hs late_test late_text timed_out
                                        show_duration opts))). accepted ob) \<and>
   (fst (snd (DialHTTP s dialled resp hs late_test late_text timed_out show_duration opts)) =
      Inr client \<longrightarrow>
      (\<exists>ob. options_sent (fst (DialHTTP s dialled resp hs late_test late_text timed_out
                                 show_duration opts)) = [ob] \<and> accepted ob))"
proof -
  let ?d = "DialHTTP s dialled resp hs late_test late_text timed_out show_duration opts"
  have s: "options_sent (fst ?d) =
     (case parseOptions s opts of
        (Inl err, s1) \<Rightarrow> []
      | (Inr p, s1) \<Rightarrow>
          if dialled = None \<and> (resp = Inr connected \<and> NewCodecFuncMap (CodecType (s1 p)) \<noteq> None)
          then [s1 p] else [])"
    unfolding DialHTTP_def
    by (rule dialTimeout_sent) (simp add: NewHTTPClient_sent options_sent_simps)
  have "\<forall>ob \<in> set (options_sent (fst ?d)). accepted ob"
    using m by (auto simp: s accepted_parsed split: sum.splits if_splits prod.splits)
  moreover have "\<exists>ob. options_sent (fst ?d) = [ob] \<and> accepted ob"
    if "fst (snd ?d) = Inr client"
  proof -
    from dialTimeout_built [OF that [unfolded DialHTTP_def]] obtain p s1 where
      ob: "parseOptions s opts = (Inr p, s1)" "dialled = None"
        "fst (snd (NewHTTPClient resp hs new_conn s1 p)) = Inr client"
      by blast
    then have "resp = Inr connected \<and> NewCodecFuncMap (CodecType (s1 p)) \<noteq> None"
      by (auto dest: NewHTTPClient_built)
    with ob s m show ?thesis
      by (simp add: accepted_parsed)
  qed
  ultimately show ?thesis by blast
qed

lemma ServeConn_accepted:
  "decode_into hs zero_Option = (None, ob) \<Longrightarrow> encode_result hs = None \<Longrightarrow>
   snd (ServeConn server conn hs) =
     (if accepted ob then Some (serveCodec server (made_codec hs) ob) else None)"
  by (auto simp: ServeConn_def accepted_def Let_def split: option.splits)

text \<open>
  What a peer's answer does to the default: \<^verbatim>\<open>NewClient\<close> decodes it into the option
  it was given, and with no option from the caller this is \<^verbatim>\<open>DefaultOption\<close>. After
  one dial to a peer that answers with another magic number, \<^verbatim>\<open>parseOptions\<close> writes
  that number into the options of later callers, and the option that a later dial sends
  does not pass the test of \<^verbatim>\<open>ServeConn\<close>.
\<close>

lemma caller_not_DefaultOption:
  "DefaultOption \<noteq> caller" "caller \<noteq> DefaultOption"
  by (simp_all add: DefaultOption_def caller_def)

lemma DefaultOption_overwritten:
  "fst (snd (Dial store0 None (carrying foreign) [])) = Inr (newClientCodec codec0 foreign)"
  "options_sent (fst (Dial store0 None (carrying foreign) [])) = [DefaultOption_init]"
  "snd (snd (Dial store0 None (carrying foreign) [])) DefaultOption = foreign"
  by (simp_all add: Dial_def parseOptions_simps NewClient_def Let_def
      store0_default gob_known carrying_def options_sent_def new_conn_def)

lemma overwritten_simps:
  "overwritten DefaultOption = foreign"
  "overwritten caller = option0"
  by (simp_all add: overwritten_def DefaultOption_overwritten caller_not_DefaultOption)

text \<open>
  C10 (as amended). \<^verbatim>\<open>DefaultOption\<close> is initialised with the magic number
  \<open>0x3bef5c\<close> and the gob type. \<^verbatim>\<open>parseOptions\<close> returns \<^verbatim>\<open>DefaultOption\<close> for
  no option and whenever the first option is nil, however many follow. For a single
  option it overwrites, in the caller's option, \<open>MagicNumber\<close> with the one that
  \<^verbatim>\<open>DefaultOption\<close> holds and replaces an empty \<open>CodecType\<close> by the one that
  \<^verbatim>\<open>DefaultOption\<close> holds. For more than one option of which the first is not nil, it
  returns an error. As long as \<^verbatim>\<open>DefaultOption\<close> holds the magic number \<open>0x3bef5c\<close>:
  every option that \<^verbatim>\<open>Dial\<close>, \<^verbatim>\<open>DialWithTimeout\<close> or \<^verbatim>\<open>DialHTTP\<close> writes on the
  connection passes the two tests of \<^verbatim>\<open>ServeConn\<close> (the magic number and a known
  codec type); when one of them returns a client, exactly one option was written; and
  \<^verbatim>\<open>DefaultOption\<close> holds that magic number afterwards too if the decoding of the
  peer's answer into it gives an option with that magic number. \<^verbatim>\<open>ServeConn\<close> enters
  its request loop for a decoded option iff it passes these tests, the answer being
  written without error.
\<close>

theorem parseOptions_handshake_accepted:
  "MagicNumber (store0 DefaultOption) = 0x3bef5c \<and>
   CodecType (store0 DefaultOption) = ''application/gob'' \<and>
   parseOptions s [] = (Inr DefaultOption, s) \<and>
   parseOptions s (None # rest) = (Inr DefaultOption, s) \<and>
   parseOptions s [Some p] =
     (Inr p, s(p := (s p)\<lparr>MagicNumber := MagicNumber (s DefaultOption),
                          CodecType := (if CodecType (s p) = [] then CodecType (s DefaultOption)
                                        else CodecType (s p))\<rparr>)) \<and>
   parseOptions s (Some p # x # rest) = (Inl ''number of options is more than 1'', s) \<and>
   (MagicNumber (s DefaultOption) = 0x3bef5c \<longrightarrow>
      (\<forall>sent_ob \<in> set (options_sent (fst (Dial s dialled hs opts))). accepted sent_ob) \<and>
      (fst (snd (Dial s dialled hs opts)) = Inr client \<longrightarrow>
         (\<exists>sent_ob. options_sent (fst (Dial s dialled hs opts)) = [sent_ob] \<and> accepted sent_ob)) \<and>
      (\<forall>sent_ob \<in> set (options_sent (fst (DialWithTimeout s dialled hs late_test late_text timed_out
                                             show_duration opts))). accepted sent_ob) \<and>
      (fst (snd (DialWithTimeout s dialled hs late_test late_text timed_out show_duration opts)) =
         Inr client \<longrightarrow>
         (\<exists>sent_ob. options_sent (fst (DialWithTimeout s dialled hs late_test late_text timed_out
                                         show_duration opts)) = [sent_ob] \<and> accepted sent_ob)) \<and>
      (\<forall>sent_ob \<in> set (options_sent (fst (DialHTTP s dialled resp hs late_test late_text timed_out
                                             show_duration opts))). accepted sent_ob) \<and>
      (fst (snd (DialHTTP s dialled resp hs late_test late_text timed_out show_duration opts)) =
         Inr client \<longrightarrow>
         (\<exists>sent_ob. options_sent (fst (DialHTTP s dialled resp hs late_test late_text timed_out
                                         show_duration opts)) = [sent_ob] \<and> accepted sent_ob)) \<and>
      (MagicNumber (snd (decode_into hs (s DefaultOption))) = 0x3bef5c \<longrightarrow>
         MagicNumber (snd (snd (Dial s dialled hs opts)) DefaultOption) = 0x3bef5c \<and>
         MagicNumber (snd (snd (DialWithTimeout s dialled hs late_test late_text timed_out
                                  show_duration opts)) DefaultOption) = 0x3bef5c \<and>
         MagicNumber (snd (snd (DialHTTP s dialled resp hs late_test late_text timed_out
                                  show_duration opts)) DefaultOption) = 0x3bef5c)) \<and>
   (decode_into hs' zero_Option = (None, ob') \<and> encode_result hs' = None \<longrightarrow>
      snd (ServeConn server conn hs') =
        (if accepted ob' then Some (serveCodec server (made_codec hs') ob') else None))"
proof -
  have i: "MagicNumber (store0 DefaultOption) = 0x3bef5c"
    "CodecType (store0 DefaultOption) = ''application/gob''"
    by (simp_all add: store0_default DefaultOption_init_def MagicNumber_const_def GobType_def)
  note p = parseOptions_simps [of s] parseOptions_simps(2) [of s rest]
    parseOptions_simps(3) [of s p] parseOptions_simps(4) [of s p x rest]
  have c: "MagicNumber_const = 0x3bef5c"
    by (simp add: MagicNumber_const_def)
  have k: "MagicNumber (s DefaultOption) = 0x3bef5c \<Longrightarrow>
      MagicNumber (snd (decode_into hs (s DefaultOption))) = 0x3bef5c \<Longrightarrow>
      MagicNumber (snd (snd (Dial s dialled hs opts)) DefaultOption) = 0x3bef5c \<and>
      MagicNumber (snd (snd (DialWithTimeout s dialled hs late_test late_text timed_out
                               show_duration opts)) DefaultOption) = 0x3bef5c \<and>
      MagicNumber (snd (snd (DialHTTP s dialled resp hs late_test late_text timed_out
                               show_duration opts)) DefaultOption) = 0x3bef5c"
    using Dial_default [of s dialled hs opts]
      DialWithTimeout_default [of s dialled hs late_test late_text timed_out show_duration opts]
      DialHTTP_default [of s dialled resp hs late_test late_text timed_out show_duration opts]
    by auto
  from i p
    Dial_accepted [of s dialled hs opts client, unfolded c]
    DialWithTimeout_accepted [of s dialled hs late_test late_text timed_out show_duration opts
      client, unfolded c]
    DialHTTP_accepted [of s dialled resp hs late_test late_text timed_out show_duration opts
      client, unfolded c]
    k
    ServeConn_accepted [of hs' ob' server conn]
  show ?thesis by blast
qed

text \<open>
  The theorem at an option with a wrong magic number and no codec type, dialled in each
  of the three ways from the store of the start with a peer that answers with what it
  received, and at a server that reads the option sent.
\<close>

theorem parseOptions_handshake_accepted_witness:
  "MagicNumber (store1 DefaultOption) = 0x3bef5c \<and>
   fst (parseOptions store1 [Some caller]) = Inr caller \<and>
   snd (parseOptions store1 [Some caller]) caller = parsed0 \<and>
   fst (snd (Dial store1 None echoing [Some caller])) = Inr (newClientCodec codec0 parsed0) \<and>
   options_sent (fst (Dial store1 None echoing [Some caller])) = [parsed0] \<and>
   fst (snd (DialWithTimeout store1 None echoing False False False (\<lambda>d. ''0s'') [Some caller])) =
     Inr (newClientCodec codec0 parsed0) \<and>
   options_sent (fst (DialWithTimeout store1 None echoing False False False (\<lambda>d. ''0s'')
                        [Some caller])) = [parsed0] \<and>
   fst (snd (DialHTTP store1 None (Inr connected) echoing False False False (\<lambda>d. ''0s'')
               [Some caller])) = Inr (newClientCodec codec0 parsed0) \<and>
   options_sent (fst (DialHTTP store1 None (Inr connected) echoing False False False (\<lambda>d. ''0s'')
                        [Some caller])) = [parsed0] \<and>
   accepted parsed0 \<and>
   MagicNumber (snd (decode_into echoing (store1 DefaultOption))) = 0x3bef5c \<and>
   MagicNumber (snd (snd (Dial store1 None echoing [Some caller])) DefaultOption) = 0x3bef5c \<and>
   decode_into (carrying parsed0) zero_Option = (None, parsed0) \<and>
   encode_result (carrying parsed0) = None \<and>
   snd (ServeConn server0 new_conn (carrying parsed0)) = Some ([], codec0\<lparr>closes := 1\<rparr>)"
proof -
  note inst = parseOptions_handshake_accepted
    [where s = store1 and rest = "[]" and p = caller and x = None and dialled = None
       and hs = echoing and opts = "[Some caller]" and client = "newClientCodec codec0 parsed0"
       and late_test = False and late_text = False and timed_out = False
       and show_duration = "\<lambda>d. ''0s''" and resp = "Inr connected"
       and hs' = "carrying parsed0" and ob' = parsed0 and server = server0 and conn = new_conn]
  have d: "store1 DefaultOption = DefaultOption_init" "store1 caller = option0"
    by (simp_all add: store1_def store0_default caller_not_DefaultOption)
  have 0: "MagicNumber (store1 DefaultOption) = 0x3bef5c"
    by (simp add: d DefaultOption_init_def MagicNumber_const_def)
  have v: "(store1 caller)\<lparr>MagicNumber := MagicNumber (store1 DefaultOption),
                       CodecType := (if CodecType (store1 caller) = []
                                     then CodecType (store1 DefaultOption)
                                     else CodecType (store1 caller))\<rparr> = parsed0"
    by (simp add: d option0_def parsed0_def DefaultOption_init_def MagicNumber_const_def
        GobType_def)
  define s1 where "s1 = store1(caller := parsed0)"
  have po: "parseOptions store1 [Some caller] = (Inr caller, s1)"
    using inst v by (simp add: s1_def)
  have s1: "s1 caller = parsed0" "s1(caller := parsed0) = s1"
    by (simp_all add: s1_def)
  have 1: "fst (parseOptions store1 [Some caller]) = Inr caller"
    "snd (parseOptions store1 [Some caller]) caller = parsed0"
    by (simp_all add: po s1)
  have nc: "NewClient echoing conn s1 caller =
      (conn\<lparr>sent := sent conn @ [JSON parsed0]\<rparr>, Inr (newClientCodec codec0 parsed0), s1)"
    for conn
    by (simp add: NewClient_def Let_def s1 gob_known echoing_def)
  have 2: "fst (snd (Dial store1 None echoing [Some caller])) = Inr (newClientCodec codec0 parsed0)"
    by (simp add: Dial_def po nc)
  have 3: "options_sent (fst (Dial store1 None echoing [Some caller])) = [parsed0]"
    by (simp add: Dial_def po nc options_sent_def new_conn_def)
  have t: "ConnectTimeout (s1 caller) = 0"
    by (simp add: s1 parsed0_def)
  have 4: "fst (snd (DialWithTimeout store1 None echoing False False False (\<lambda>d. ''0s'')
                       [Some caller])) = Inr (newClientCodec codec0 parsed0)"
    by (simp add: DialWithTimeout_def dialTimeout_def po nc t)
  have 5: "options_sent (fst (DialWithTimeout store1 None echoing False False False (\<lambda>d. ''0s'')
                        [Some caller])) = [parsed0]"
    by (simp add: DialWithTimeout_def dialTimeout_def po nc t options_sent_def new_conn_def)
  have 6: "fst (snd (DialHTTP store1 None (Inr connected) echoing False False False (\<lambda>d. ''0s'')
               [Some caller])) = Inr (newClientCodec codec0 parsed0)"
    by (simp add: DialHTTP_def dialTimeout_def po NewHTTPClient_def nc t)
  have 7: "options_sent (fst (DialHTTP store1 None (Inr connected) echoing False False False
                        (\<lambda>d. ''0s'') [Some caller])) = [parsed0]"
    by (simp add: DialHTTP_def dialTimeout_def po NewHTTPClient_def nc t options_sent_def
        new_conn_def)
  have 8: "accepted parsed0"
    using inst 0 2 3 by auto
  have 9: "MagicNumber (snd (decode_into echoing (store1 DefaultOption))) = 0x3bef5c"
    using 0 by (simp add: echoing_def)
  have 10: "MagicNumber (snd (snd (Dial store1 None echoing [Some caller])) DefaultOption) = 0x3bef5c"
    using inst 0 9 by blast
  have 11: "decode_into (carrying parsed0) zero_Option = (None, parsed0)"
    "encode_result (carrying parsed0) = None" "made_codec (carrying parsed0) = codec0"
    by (simp_all add: carrying_def)
  have "serveCodec server0 codec0 parsed0 = ([], codec0\<lparr>closes := 1\<rparr>)"
    by (simp add: serveCodec.simps readRequest_def readRequestHeader_def cc_ReadHeader_def
        cc_Close_def codec0_def)
  with inst 8 11 have 12:
    "snd (ServeConn server0 new_conn (carrying parsed0)) = Some ([], codec0\<lparr>closes := 1\<rparr>)"
    by simp
  from 0 1 2 3 4 5 6 7 8 9 10 11 12 show ?thesis by blast
qed

text \<open>
  C10 as stated fails for two options of which the first is nil: the result is the
  default option, not an error. It also fails on the magic number once a peer has
  answered a dial made with the default option by an option with another magic number:
  \<^verbatim>\<open>parseOptions\<close> then writes that number, not \<open>0x3bef5c\<close>, into the caller's
  option, and the option that \<^verbatim>\<open>Dial\<close> sends does not pass the test of the server.
\<close>

theorem parseOptions_nil_then_more:
  "parseOptions store1 [None, Some caller] = (Inr DefaultOption, store1) \<and>
   MagicNumber (snd (parseOptions overwritten [Some caller]) caller) = 1 \<and>
   options_sent (fst (Dial overwritten None echoing [Some caller])) =
     [option0\<lparr>MagicNumber := 1, CodecType := ''application/gob''\<rparr>] \<and>
   \<not> accepted (option0\<lparr>MagicNumber := 1, CodecType := ''application/gob''\<rparr>)"
proof -
  have 1: "parseOptions store1 [None, Some caller] = (Inr DefaultOption, store1)"
    by (simp add: parseOptions_def)
  note o = overwritten_simps
  define s1 where
    "s1 = overwritten(caller := option0\<lparr>MagicNumber := 1, CodecType := ''application/gob''\<rparr>)"
  have po: "parseOptions overwritten [Some caller] = (Inr caller, s1)"
    by (simp add: parseOptions_simps o s1_def option0_def foreign_def)
  have s1: "s1 caller = option0\<lparr>MagicNumber := 1, CodecType := ''application/gob''\<rparr>"
    by (simp add: s1_def)
  have 2: "MagicNumber (snd (parseOptions overwritten [Some caller]) caller) = 1"
    by (simp add: po s1)
  have 3: "options_sent (fst (Dial overwritten None echoing [Some caller])) =
     [option0\<lparr>MagicNumber := 1, CodecType := ''application/gob''\<rparr>]"
    by (simp add: Dial_def po NewClient_def Let_def s1 option0_def NewCodecFuncMap_def GobType_def
        echoing_def options_sent_def new_conn_def)
  have 4: "\<not> accepted (option0\<lparr>MagicNumber := 1, CodecType := ''application/gob''\<rparr>)"
    by (simp add: accepted_def option0_def MagicNumber_const_def)
  from 1 2 3 4 show ?thesis by blast
qed

section \<open>The HTTP client (C8)\<close>

text \<open>
  C8 (as amended). \<^verbatim>\<open>NewHTTPClient\<close> first writes the text
  \<^verbatim>\<open>CONNECT /_simplerpc_ HTTP/1.0\<close> followed by two line feeds (no carriage
  return). When the status of the response is \<^verbatim>\<open>200 Connected to Gee RPC\<close> it goes on
  with \<^verbatim>\<open>NewClient\<close> on that connection; for any other status it returns the error
  \<^verbatim>\<open>unexpected HTTP response:\<close> followed by the status, and when the response
  cannot be read it returns the error of the read; in both cases nothing more is written,
  no option is touched and there is no client.
\<close>

theorem NewHTTPClient_connect:
  "(\<exists>more. sent (fst (NewHTTPClient resp hs conn s p)) =
      sent conn @ Raw ''CONNECT /_simplerpc_ HTTP/1.0\<newline>\<newline>'' # more) \<and>
   (resp = Inr ''200 Connected to Gee RPC'' \<longrightarrow>
      NewHTTPClient resp hs conn s p =
        NewClient hs (conn\<lparr>sent := sent conn @ [Raw ''CONNECT /_simplerpc_ HTTP/1.0\<newline>\<newline>'']\<rparr>)
          s p) \<and>
   (resp = Inr status \<and> status \<noteq> ''200 Connected to Gee RPC'' \<longrightarrow>
      NewHTTPClient resp hs conn s p =
        (conn\<lparr>sent := sent conn @ [Raw ''CONNECT /_simplerpc_ HTTP/1.0\<newline>\<newline>'']\<rparr>,
         Inl (''unexpected HTTP response:'' @ status), s)) \<and>
   (resp = Inl err \<longrightarrow>
      NewHTTPClient resp hs conn s p =
        (conn\<lparr>sent := sent conn @ [Raw ''CONNECT /_simplerpc_ HTTP/1.0\<newline>\<newline>'']\<rparr>, Inl err, s))"
  by (auto simp: NewHTTPClient_def NewClient_def Let_def connected_def defaultRPCPath_def
      conn_Close_def split: sum.splits option.splits prod.splits)

text \<open>
  The theorem at the expected status, at another status and at a failed read, with the
  default option and a peer that answers with what it received.
\<close>

theorem NewHTTPClient_connect_witness:
  "NewHTTPClient (Inr ''200 Connected to Gee RPC'') echoing new_conn store0 DefaultOption =
     (\<lparr>sent = [Raw ''CONNECT /_simplerpc_ HTTP/1.0\<newline>\<newline>'', JSON DefaultOption_init],
       conn_closes = 0\<rparr>,
      Inr (newClientCodec codec0 DefaultOption_init), store0) \<and>
   ''404 Not Found'' \<noteq> ''200 Connected to Gee RPC'' \<and>
   NewHTTPClient (Inr ''404 Not Found'') echoing new_conn store0 DefaultOption =
     (\<lparr>sent = [Raw ''CONNECT /_simplerpc_ HTTP/1.0\<newline>\<newline>''], conn_closes = 0\<rparr>,
      Inl ''unexpected HTTP response:404 Not Found'', store0) \<and>
   NewHTTPClient (Inl ''unexpected EOF'') echoing new_conn store0 DefaultOption =
     (\<lparr>sent = [Raw ''CONNECT /_simplerpc_ HTTP/1.0\<newline>\<newline>''], conn_closes = 0\<rparr>,
      Inl ''unexpected EOF'', store0)"
proof -
  have 1: "NewHTTPClient (Inr ''200 Connected to Gee RPC'') echoing new_conn store0 DefaultOption =
     (\<lparr>sent = [Raw ''CONNECT /_simplerpc_ HTTP/1.0\<newline>\<newline>'', JSON DefaultOption_init],
       conn_closes = 0\<rparr>,
      Inr (newClientCodec codec0 DefaultOption_init), store0)"
    using NewHTTPClient_connect [where resp = "Inr ''200 Connected to Gee RPC''" and hs = echoing
        and conn = new_conn and s = store0 and p = DefaultOption and status = "[]" and err = "[]"]
    by (simp add: NewClient_def echoing_def new_conn_def store0_default store0_upd gob_known)
  have 2: "NewHTTPClient (Inr ''404 Not Found'') echoing new_conn store0 DefaultOption =
     (\<lparr>sent = [Raw ''CONNECT /_simplerpc_ HTTP/1.0\<newline>\<newline>''], conn_closes = 0\<rparr>,
      Inl ''unexpected HTTP response:404 Not Found'', store0)"
    using NewHTTPClient_connect [where resp = "Inr ''404 Not Found''" and hs = echoing
        and conn = new_conn and s = store0 and p = DefaultOption and status = "''404 Not Found''"
        and err = "[]"]
    by (simp add: new_conn_def)
  have 3: "NewHTTPClient (Inl ''unexpected EOF'') echoing new_conn store0 DefaultOption =
     (\<lparr>sent = [Raw ''CONNECT /_simplerpc_ HTTP/1.0\<newline>\<newline>''], conn_closes = 0\<rparr>,
      Inl ''unexpected EOF'', store0)"
    using NewHTTPClient_connect [where resp = "Inl ''unexpected EOF''" and hs = echoing
        and conn = new_conn and s = store0 and p = DefaultOption and status = "[]"
        and err = "''unexpected EOF''"]
    by (simp add: new_conn_def)
  from 1 2 3 show ?thesis by simp
qed

text \<open>
  C8 as stated fails on the end of the request: it is two line feeds, not
  \<^verbatim>\<open>\r\n\r\n\<close>.
\<close>

theorem NewHTTPClient_no_carriage_return:
  "sent (fst (NewHTTPClient (Inr connected) echoing new_conn store0 DefaultOption)) ! 0 =
     Raw (''CONNECT /_simplerpc_ HTTP/1.0'' @ [CHR 0x0A, CHR 0x0A]) \<and>
   sent (fst (NewHTTPClient (Inr connected) echoing new_conn store0 DefaultOption)) ! 0 \<noteq>
     Raw (''CONNECT /_simplerpc_ HTTP/1.0'' @ [CHR 0x0D, CHR 0x0A, CHR 0x0D, CHR 0x0A])"
  by (simp add: NewHTTPClient_def NewClient_def Let_def new_conn_def defaultRPCPath_def
      echoing_def store0_default gob_known)

end
